theory Spec2Isabelle
  imports Main "HOL-Library.Sublist"
begin

section \<open>Data model\<close>

text \<open>
  \<^verbatim>\<open>app/models/user.py\<close>: the role enumeration and the columns of the \<^verbatim>\<open>users\<close> table.
  The two timestamp columns are filled by the database server and read by no handler;
  they are left out. Field names carry the prefix \<open>u_\<close> because record fields share
  one name space.
\<close>

datatype UserRole = ADMIN | VENDOR | CONSUMER

fun role_value :: "UserRole \<Rightarrow> string" where
  "role_value ADMIN = ''admin''"
| "role_value VENDOR = ''vendor''"
| "role_value CONSUMER = ''consumer''"

record User =
  u_id :: int
  u_email :: string
  u_phone :: "string option"
  u_hashed_password :: string
  u_full_name :: string
  u_role :: UserRole
  u_is_active :: bool
  u_is_verified :: bool
  u_profile_image :: "string option"
  u_address :: "string option"
  u_city :: "string option"
  u_prefecture :: "string option"
  u_country :: string
  u_postal_code :: "string option"

text \<open>
  \<^verbatim>\<open>app/models/vendor.py\<close>, \<^verbatim>\<open>app/models/market.py\<close>, \<^verbatim>\<open>app/models/product.py\<close>:
  the columns the modelled handlers read or write. The descriptive columns of a vendor
  (\<^verbatim>\<open>VendorBase\<close>) are kept together in one record.
\<close>

record VendorBase =
  business_name :: string
  business_description :: "string option"
  specialties :: "string option"
  business_phone :: "string option"
  website :: "string option"
  social_media :: "string option"
  available_days :: "string option"
  available_from :: "string option"
  available_to :: "string option"

record Vendor =
  v_id :: int
  v_user_id :: int
  v_market_id :: int
  v_base :: VendorBase
  v_is_verified :: bool
  v_total_reviews :: int

record Market =
  m_id :: int
  m_name :: string
  m_is_active :: bool

record Category =
  c_id :: int
  c_name :: string
  c_name_ja :: "string option"
  c_name_ne :: "string option"
  c_description :: "string option"
  c_icon :: "string option"
  c_is_active :: bool

record Product =
  p_id :: int
  p_vendor_id :: int
  p_category_id :: int
  p_name :: string
  p_is_available :: bool
  p_main_image :: "string option"

text \<open>
  The database session: one list of rows per table. A query
  \<^verbatim>\<open>db.query(T).filter(c).first()\<close> is \<^const>\<open>find\<close> on the table,
  \<^verbatim>\<open>.count()\<close> is the length of the filtered table.
\<close>

record db =
  users :: "User list"
  vendors :: "Vendor list"
  markets :: "Market list"
  categories :: "Category list"
  products :: "Product list"

text \<open>
  \<^verbatim>\<open>HTTPException(status_code, detail, headers)\<close>. A handler returns
  \<open>HTTPException + 'a\<close>: \<open>Inl\<close> is the raised exception.
\<close>

record HTTPException =
  status_code :: nat
  detail :: string
  headers :: "(string \<times> string) list"

definition http_exception :: "nat \<Rightarrow> string \<Rightarrow> HTTPException" where
  "http_exception code msg = \<lparr>status_code = code, detail = msg, headers = []\<rparr>"

text \<open>
  The claims of a token (\<^verbatim>\<open>TokenData\<close> in \<^verbatim>\<open>app/schemas/user.py\<close>): the decoded
  payload is a dictionary, and \<^verbatim>\<open>payload.get(k)\<close> is \<open>None\<close> for a missing key.
\<close>

record payload =
  sub :: "string option"
  user_id :: "int option"
  role :: "string option"

text \<open>
  \<^verbatim>\<open>app/core/auth.py\<close> is not among the sources. The functions the handlers import from
  it are taken as parameters, collected in one record; \<open>'t\<close> is the type of tokens.
  The expiry of an access token is passed in minutes
  (\<^verbatim>\<open>timedelta(minutes=settings.ACCESS_TOKEN_EXPIRE_MINUTES)\<close>).
\<close>

record 't auth_core =
  verify_password :: "string \<Rightarrow> string \<Rightarrow> bool"
  get_password_hash :: "string \<Rightarrow> string"
  create_access_token :: "payload \<Rightarrow> int \<Rightarrow> 't"
  create_refresh_token :: "payload \<Rightarrow> 't"
  decode_access_token :: "'t \<Rightarrow> payload option"
  decode_refresh_token :: "'t \<Rightarrow> payload option"

definition ACCESS_TOKEN_EXPIRE_MINUTES :: int where
  "ACCESS_TOKEN_EXPIRE_MINUTES = 30"

section \<open>Identity resolution and role gates (\<^verbatim>\<open>app/core/dependencies.py\<close>)\<close>

definition credentials_exception :: HTTPException where
  "credentials_exception =
     \<lparr>status_code = 401, detail = ''Could not validate credentials'',
      headers = [(''WWW-Authenticate'', ''Bearer'')]\<rparr>"

definition user_by_id :: "int option \<Rightarrow> db \<Rightarrow> User option" where
  "user_by_id uid d = find (\<lambda>u. Some (u_id u) = uid) (users d)"

definition get_current_user :: "'t auth_core \<Rightarrow> 't \<Rightarrow> db \<Rightarrow> HTTPException + User" where
  "get_current_user core credentials d =
     (case decode_access_token core credentials of
        None \<Rightarrow> Inl credentials_exception
      | Some pl \<Rightarrow>
          let email = sub pl; uid = user_id pl in
          if email = None \<or> uid = None then Inl credentials_exception
          else (case user_by_id uid d of
                  None \<Rightarrow> Inl credentials_exception
                | Some user \<Rightarrow>
                    if \<not> u_is_active user then Inl (http_exception 400 ''Inactive user'')
                    else Inr user))"

definition get_current_active_user :: "User \<Rightarrow> HTTPException + User" where
  "get_current_active_user current_user =
     (if \<not> u_is_active current_user then Inl (http_exception 400 ''Inactive user'')
      else Inr current_user)"

text \<open>Python's \<^verbatim>\<open>sep.join(xs)\<close>.\<close>

fun join :: "string \<Rightarrow> string list \<Rightarrow> string" where
  "join sep [] = []"
| "join sep [x] = x"
| "join sep (x # y # ys) = x @ sep @ join sep (y # ys)"

text \<open>
  \<^verbatim>\<open>require_role\<close> and \<^verbatim>\<open>require_roles\<close> return the closures \<^verbatim>\<open>role_checker\<close> and
  \<^verbatim>\<open>roles_checker\<close>, functions of the user resolved by \<^verbatim>\<open>get_current_active_user\<close>.
\<close>

definition require_role :: "UserRole \<Rightarrow> User \<Rightarrow> HTTPException + User" where
  "require_role required_role = (\<lambda>current_user.
     if u_role current_user \<noteq> required_role
     then Inl (http_exception 403
                 (''Operation requires '' @ role_value required_role @ '' role''))
     else Inr current_user)"

definition require_roles :: "UserRole list \<Rightarrow> User \<Rightarrow> HTTPException + User" where
  "require_roles required_roles = (\<lambda>current_user.
     if u_role current_user \<notin> set required_roles
     then (let role_names = map role_value required_roles in
           Inl (http_exception 403
                  (''Operation requires one of these roles: '' @ join '', '' role_names)))
     else Inr current_user)"

definition require_admin :: "User \<Rightarrow> HTTPException + User" where
  "require_admin = require_role ADMIN"

definition require_vendor :: "User \<Rightarrow> HTTPException + User" where
  "require_vendor = require_role VENDOR"

definition require_consumer :: "User \<Rightarrow> HTTPException + User" where
  "require_consumer = require_role CONSUMER"

definition require_vendor_or_admin :: "User \<Rightarrow> HTTPException + User" where
  "require_vendor_or_admin = require_roles [VENDOR, ADMIN]"

text \<open>
  The dependency chain of a protected endpoint, as the framework resolves it:
  \<^verbatim>\<open>Depends(get_current_active_user)\<close> runs \<^verbatim>\<open>get_current_user\<close> on the bearer token
  first, and a gate \<^verbatim>\<open>Depends(require_...)\<close> runs after both.
\<close>

definition depends_active_user :: "'t auth_core \<Rightarrow> 't \<Rightarrow> db \<Rightarrow> HTTPException + User" where
  "depends_active_user core credentials d =
     (case get_current_user core credentials d of
        Inl e \<Rightarrow> Inl e
      | Inr user \<Rightarrow> get_current_active_user user)"

definition depends_gate ::
  "(User \<Rightarrow> HTTPException + User) \<Rightarrow> 't auth_core \<Rightarrow> 't \<Rightarrow> db \<Rightarrow> HTTPException + User" where
  "depends_gate gate core credentials d =
     (case depends_active_user core credentials d of
        Inl e \<Rightarrow> Inl e
      | Inr user \<Rightarrow> gate user)"

section \<open>Authentication endpoints (\<^verbatim>\<open>app/api/auth.py\<close>)\<close>

text \<open>
  A handler that raises before \<^verbatim>\<open>db.commit()\<close> leaves the database as it was, so an
  \<open>Inl\<close> result carries no database; a handler that commits returns the new database
  with its response.
\<close>

record UserCreate =
  uc_email :: string
  uc_full_name :: string
  uc_phone :: "string option"
  uc_address :: "string option"
  uc_city :: "string option"
  uc_prefecture :: "string option"
  uc_country :: string
  uc_postal_code :: "string option"
  uc_password :: string
  uc_role :: UserRole

record UserLogin =
  ul_email :: string
  ul_password :: string

record PasswordChange =
  current_password :: string
  new_password :: string

record 't Token =
  access_token :: 't
  refresh_token :: 't
  token_type :: string
  expires_in :: int

definition user_by_email :: "string \<Rightarrow> db \<Rightarrow> User option" where
  "user_by_email email d = find (\<lambda>u. u_email u = email) (users d)"

definition user_by_phone :: "string \<Rightarrow> db \<Rightarrow> User option" where
  "user_by_phone phone d = find (\<lambda>u. u_phone u = Some phone) (users d)"

text \<open>
  \<^verbatim>\<open>register_user\<close>. The primary key of the inserted row is assigned by the database;
  it is the argument \<open>new_id\<close>. \<^verbatim>\<open>is_active\<close>, \<^verbatim>\<open>is_verified\<close> and
  \<^verbatim>\<open>profile_image\<close> take their column defaults.
\<close>

definition register_user ::
  "'t auth_core \<Rightarrow> UserCreate \<Rightarrow> int \<Rightarrow> db \<Rightarrow> HTTPException + (db \<times> User)" where
  "register_user core user_data new_id d =
     (if user_by_email (uc_email user_data) d \<noteq> None
      then Inl (http_exception 400 ''Email already registered'')
      else if (case uc_phone user_data of
                 None \<Rightarrow> False
               | Some ph \<Rightarrow> ph \<noteq> [] \<and> user_by_phone ph d \<noteq> None)
      then Inl (http_exception 400 ''Phone number already registered'')
      else
        let hashed_password = get_password_hash core (uc_password user_data);
            db_user = \<lparr>u_id = new_id,
                       u_email = uc_email user_data,
                       u_phone = uc_phone user_data,
                       u_hashed_password = hashed_password,
                       u_full_name = uc_full_name user_data,
                       u_role = uc_role user_data,
                       u_is_active = True,
                       u_is_verified = False,
                       u_profile_image = None,
                       u_address = uc_address user_data,
                       u_city = uc_city user_data,
                       u_prefecture = uc_prefecture user_data,
                       u_country = uc_country user_data,
                       u_postal_code = uc_postal_code user_data\<rparr>
        in Inr (d\<lparr>users := users d @ [db_user]\<rparr>, db_user))"

definition token_claims :: "User \<Rightarrow> payload" where
  "token_claims user =
     \<lparr>sub = Some (u_email user), user_id = Some (u_id user),
      role = Some (role_value (u_role user))\<rparr>"

definition issue_tokens :: "'t auth_core \<Rightarrow> User \<Rightarrow> 't Token" where
  "issue_tokens core user =
     \<lparr>access_token = create_access_token core (token_claims user) ACCESS_TOKEN_EXPIRE_MINUTES,
      refresh_token = create_refresh_token core (token_claims user),
      token_type = ''bearer'',
      expires_in = ACCESS_TOKEN_EXPIRE_MINUTES * 60\<rparr>"

text \<open>
  \<^verbatim>\<open>login_user\<close>. The test \<^verbatim>\<open>not user or not verify_password(...)\<close> short-circuits:
  the password is verified only when a user was found, and both failures raise the one
  exception.
\<close>

definition login_user :: "'t auth_core \<Rightarrow> UserLogin \<Rightarrow> db \<Rightarrow> HTTPException + 't Token" where
  "login_user core login_data d =
     (let incorrect = \<lparr>status_code = 401, detail = ''Incorrect email or password'',
                        headers = [(''WWW-Authenticate'', ''Bearer'')]\<rparr>
      in case user_by_email (ul_email login_data) d of
           None \<Rightarrow> Inl incorrect
         | Some user \<Rightarrow>
             if \<not> verify_password core (ul_password login_data) (u_hashed_password user)
             then Inl incorrect
             else if \<not> u_is_active user
             then Inl (http_exception 400 ''Inactive user account'')
             else Inr (issue_tokens core user))"

definition refresh_access_token :: "'t auth_core \<Rightarrow> 't \<Rightarrow> db \<Rightarrow> HTTPException + 't Token" where
  "refresh_access_token core refresh_data d =
     (case decode_refresh_token core refresh_data of
        None \<Rightarrow> Inl \<lparr>status_code = 401, detail = ''Invalid refresh token'',
                     headers = [(''WWW-Authenticate'', ''Bearer'')]\<rparr>
      | Some pl \<Rightarrow>
          (case user_by_id (user_id pl) d of
             None \<Rightarrow> Inl (http_exception 401 ''User not found or inactive'')
           | Some user \<Rightarrow>
               if \<not> u_is_active user
               then Inl (http_exception 401 ''User not found or inactive'')
               else Inr (issue_tokens core user)))"

text \<open>
  An attribute assignment followed by \<^verbatim>\<open>db.commit()\<close> is an \<^verbatim>\<open>UPDATE\<close> of the
  assigned column on the row with the object's primary key.
\<close>

definition update_user :: "int \<Rightarrow> (User \<Rightarrow> User) \<Rightarrow> db \<Rightarrow> db" where
  "update_user pk f d = d\<lparr>users := map (\<lambda>u. if u_id u = pk then f u else u) (users d)\<rparr>"

definition change_password ::
  "'t auth_core \<Rightarrow> PasswordChange \<Rightarrow> User \<Rightarrow> db \<Rightarrow> HTTPException + (db \<times> string)" where
  "change_password core password_data current_user d =
     (if \<not> verify_password core (current_password password_data)
             (u_hashed_password current_user)
      then Inl (http_exception 400 ''Incorrect current password'')
      else
        let h = get_password_hash core (new_password password_data)
        in Inr (update_user (u_id current_user) (\<lambda>u. u\<lparr>u_hashed_password := h\<rparr>) d,
                ''Password changed successfully''))"

definition toggle_user_active_status ::
  "int \<Rightarrow> User \<Rightarrow> db \<Rightarrow> HTTPException + (db \<times> string)" where
  "toggle_user_active_status uid current_user d =
     (case user_by_id (Some uid) d of
        None \<Rightarrow> Inl (http_exception 404 ''User not found'')
      | Some user \<Rightarrow>
          let now_active = \<not> u_is_active user;
              status_text = (if now_active then ''activated'' else ''deactivated'')
          in Inr (update_user (u_id user) (\<lambda>u. u\<lparr>u_is_active := now_active\<rparr>) d,
                  ''User '' @ status_text @ '' successfully''))"

section \<open>Media store (\<^verbatim>\<open>app/core/file_handler.py\<close>)\<close>

text \<open>
  Paths are those of \<^verbatim>\<open>pathlib\<close> on a POSIX system. A path is the list of its parts;
  an absolute path begins with its root, \<open>/\<close> or \<open>//\<close>, and the empty list is the
  current directory. Parsing a string splits it at \<open>/\<close> and drops the empty parts and
  the parts \<open>.\<close>; a part \<open>..\<close> is kept.
\<close>

type_synonym path = "string list"
type_synonym bytes = "nat list"

text \<open>Python's \<^verbatim>\<open>s.split(sep)\<close>, with the part read so far in reverse.\<close>

fun split_acc :: "char \<Rightarrow> string \<Rightarrow> string \<Rightarrow> string list" where
  "split_acc sep acc [] = [rev acc]"
| "split_acc sep acc (c # cs) =
     (if c = sep then rev acc # split_acc sep [] cs else split_acc sep (c # acc) cs)"

definition path_parts :: "string \<Rightarrow> string list" where
  "path_parts s = filter (\<lambda>p. p \<noteq> [] \<and> p \<noteq> ''.'') (split_acc (CHR ''/'') [] s)"

definition path_root :: "string \<Rightarrow> string" where
  "path_root s = (if prefix ''//'' s \<and> \<not> prefix ''///'' s then ''//'' else ''/'')"

text \<open>\<^verbatim>\<open>p / s\<close>: a string that begins with \<open>/\<close> replaces the path.\<close>

definition path_div :: "path \<Rightarrow> string \<Rightarrow> path" where
  "path_div p s =
     (if prefix ''/'' s then path_root s # path_parts s else p @ path_parts s)"

definition is_root :: "string \<Rightarrow> bool" where
  "is_root part = (part = ''/'' \<or> part = ''//'')"

fun path_name :: "path \<Rightarrow> string" where
  "path_name [] = []"
| "path_name [part] = (if is_root part then [] else part)"
| "path_name parts = last parts"

fun path_parent :: "path \<Rightarrow> path" where
  "path_parent [] = []"
| "path_parent [part] = (if is_root part then [part] else [])"
| "path_parent parts = butlast parts"

text \<open>
  The file system tells what is at a path: a regular file with its bytes, a directory, or
  nothing. \<^verbatim>\<open>p.exists()\<close> is \<open>fs p \<noteq> None\<close>.
\<close>

datatype node = File bytes | Directory

type_synonym filesystem = "path \<rightharpoonup> node"

definition UPLOAD_DIR :: path where
  "UPLOAD_DIR = path_div [] ''uploads''"

definition ALLOWED_EXTENSIONS :: "string set" where
  "ALLOWED_EXTENSIONS = {''.jpg'', ''.jpeg'', ''.png'', ''.gif'', ''.webp''}"

definition MAX_FILE_SIZE :: nat where
  "MAX_FILE_SIZE = 5 * 1024 * 1024"

record UploadFile =
  content_type :: "string option"
  filename :: "string option"
  content :: bytes

text \<open>
  What the operating system and the libraries decide during one call:
  \<^item> \<open>suffix_lower name\<close> is \<^verbatim>\<open>Path(name).suffix.lower()\<close>;
  \<^item> \<open>uuid4\<close> is the text of the identifier \<^verbatim>\<open>uuid.uuid4()\<close> returns, 36 characters;
  \<^item> \<open>write_result\<close> is the outcome of opening the new file and writing the content: the
    open can raise (no file appears), or the write can raise (a partial file is left);
    each failure carries the text of its exception;
  \<^item> \<open>make_thumbnail\<close> is the imaging pipeline of \<^verbatim>\<open>create_thumbnail\<close> (open, convert,
    resize, encode, save), \<open>None\<close> when any step of it raises;
  \<^item> \<open>unlink_raises p\<close> holds when removing the file \<open>p\<close> raises (a missing permission,
    a read-only file system).
\<close>

datatype write_outcome = Written | OpenFailed string | WriteFailed bytes string

record io_env =
  suffix_lower :: "string \<Rightarrow> string"
  uuid4 :: string
  write_result :: write_outcome
  make_thumbnail :: "bytes \<Rightarrow> bytes option"
  unlink_raises :: "path \<Rightarrow> bool"

text \<open>
  \<^verbatim>\<open>p.unlink()\<close>: \<open>None\<close> when it raises, which it always does on a directory;
  otherwise the file system without \<open>p\<close>.
\<close>

definition unlink :: "io_env \<Rightarrow> path \<Rightarrow> filesystem \<Rightarrow> filesystem option" where
  "unlink env p fs =
     (if unlink_raises env p \<or> fs p = Some Directory then None else Some (fs(p := None)))"

definition generate_filename :: "io_env \<Rightarrow> string \<Rightarrow> string" where
  "generate_filename env original_filename =
     (let ext = suffix_lower env original_filename in uuid4 env @ ext)"

definition validate_image_file :: "io_env \<Rightarrow> UploadFile \<Rightarrow> bool" where
  "validate_image_file env file =
     (case content_type file of
        None \<Rightarrow> False
      | Some ct \<Rightarrow>
          if ct = [] \<or> \<not> prefix ''image/'' ct then False
          else
            let ext = suffix_lower env (case filename file of None \<Rightarrow> [] | Some n \<Rightarrow> n)
            in ext \<in> ALLOWED_EXTENSIONS)"

text \<open>\<^verbatim>\<open>image_path.parent / f"thumb_{image_path.name}"\<close>.\<close>

definition thumbnail_path :: "path \<Rightarrow> path" where
  "thumbnail_path image_path =
     path_div (path_parent image_path) (''thumb_'' @ path_name image_path)"

text \<open>\<^verbatim>\<open>create_thumbnail\<close> catches every exception, prints it and returns.\<close>

definition create_thumbnail :: "io_env \<Rightarrow> path \<Rightarrow> filesystem \<Rightarrow> filesystem" where
  "create_thumbnail env image_path fs =
     (case fs image_path of
        Some (File img) \<Rightarrow>
          (case make_thumbnail env img of
             None \<Rightarrow> fs
           | Some thumb \<Rightarrow> fs(thumbnail_path image_path \<mapsto> File thumb))
      | _ \<Rightarrow> fs)"

text \<open>
  \<^verbatim>\<open>save_image\<close> returns its result together with the file system it leaves, since
  the writes are not undone by the exception. When the clean-up in the handler raises
  itself, that exception leaves the function instead of the \<^verbatim>\<open>HTTPException\<close>, and the
  framework answers 500.
\<close>

definition save_cleanup ::
  "io_env \<Rightarrow> path \<Rightarrow> string \<Rightarrow> filesystem \<Rightarrow> (HTTPException + string) \<times> filesystem" where
  "save_cleanup env file_path e fs =
     (if fs file_path \<noteq> None
      then (case unlink env file_path fs of
              None \<Rightarrow> (Inl (http_exception 500 ''Internal Server Error''), fs)
            | Some fs' \<Rightarrow> (Inl (http_exception 500 (''Failed to save image: '' @ e)), fs'))
      else (Inl (http_exception 500 (''Failed to save image: '' @ e)), fs))"

definition save_image ::
  "io_env \<Rightarrow> UploadFile \<Rightarrow> string \<Rightarrow> filesystem \<Rightarrow> (HTTPException + string) \<times> filesystem" where
  "save_image env file subdir fs =
     (if \<not> validate_image_file env file
      then (Inl (http_exception 400 ''Invalid image file''), fs)
      else if length (content file) > MAX_FILE_SIZE
      then (Inl (http_exception 400 ''File too large''), fs)
      else
        let name = generate_filename env
                     (case filename file of
                        None \<Rightarrow> ''image''
                      | Some n \<Rightarrow> if n = [] then ''image'' else n);
            file_path = path_div (path_div UPLOAD_DIR subdir) name
        in case write_result env of
             Written \<Rightarrow>
               (Inr name,
                create_thumbnail env file_path (fs(file_path \<mapsto> File (content file))))
           | OpenFailed e \<Rightarrow> save_cleanup env file_path e fs
           | WriteFailed partial e \<Rightarrow>
               save_cleanup env file_path e (fs(file_path \<mapsto> File partial)))"

text \<open>
  \<^verbatim>\<open>delete_image\<close>: an exception of either removal is caught and turns the result into
  \<open>False\<close>; what was removed before it stays removed.
\<close>

definition delete_image :: "io_env \<Rightarrow> string \<Rightarrow> string \<Rightarrow> filesystem \<Rightarrow> bool \<times> filesystem" where
  "delete_image env name subdir fs =
     (let file_path = path_div (path_div UPLOAD_DIR subdir) name;
          thumb_path = path_div (path_div UPLOAD_DIR subdir) (''thumb_'' @ name)
      in case (if fs file_path \<noteq> None then unlink env file_path fs else Some fs) of
           None \<Rightarrow> (False, fs)
         | Some fs1 \<Rightarrow>
             (case (if fs1 thumb_path \<noteq> None then unlink env thumb_path fs1 else Some fs1) of
                None \<Rightarrow> (False, fs1)
              | Some fs2 \<Rightarrow> (True, fs2)))"

section \<open>Categories (\<^verbatim>\<open>app/api/categories.py\<close>)\<close>

record CategoryResponse =
  cr_category :: Category
  cr_product_count :: nat

definition category_by_id :: "int \<Rightarrow> db \<Rightarrow> Category option" where
  "category_by_id category_id d = find (\<lambda>c. c_id c = category_id) (categories d)"

definition product_count_of :: "int \<Rightarrow> db \<Rightarrow> nat" where
  "product_count_of category_id d =
     length (filter (\<lambda>p. p_category_id p = category_id) (products d))"

definition get_category :: "int \<Rightarrow> db \<Rightarrow> HTTPException + CategoryResponse" where
  "get_category category_id d =
     (case category_by_id category_id d of
        None \<Rightarrow> Inl (http_exception 404 ''Category not found'')
      | Some category \<Rightarrow>
          let product_count = product_count_of category_id d
          in Inr \<lparr>cr_category = category, cr_product_count = product_count\<rparr>)"

text \<open>
  \<^verbatim>\<open>db.delete(category)\<close> followed by \<^verbatim>\<open>db.commit()\<close> is a \<^verbatim>\<open>DELETE\<close> of the row with
  the object's primary key.
\<close>

definition delete_category :: "int \<Rightarrow> User \<Rightarrow> db \<Rightarrow> HTTPException + (db \<times> string)" where
  "delete_category category_id current_user d =
     (case category_by_id category_id d of
        None \<Rightarrow> Inl (http_exception 404 ''Category not found'')
      | Some category \<Rightarrow>
          let product_count = product_count_of category_id d
          in if product_count > 0
             then Inl (http_exception 400 ''Cannot delete category with existing products'')
             else Inr (d\<lparr>categories := filter (\<lambda>c. c_id c \<noteq> c_id category) (categories d)\<rparr>,
                       ''Category deleted successfully''))"

section \<open>Vendor-only operations (\<^verbatim>\<open>app/api/vendors.py\<close>, \<^verbatim>\<open>app/api/products.py\<close>)\<close>

record VendorCreate =
  vc_base :: VendorBase
  vc_market_id :: int

record VendorResponse =
  vr_vendor :: Vendor
  vr_user :: User
  vr_market_name :: "string option"
  vr_product_count :: nat

definition vendor_by_user :: "int \<Rightarrow> db \<Rightarrow> Vendor option" where
  "vendor_by_user uid d = find (\<lambda>v. v_user_id v = uid) (vendors d)"

definition market_by_id :: "int \<Rightarrow> db \<Rightarrow> Market option" where
  "market_by_id mid d = find (\<lambda>m. m_id m = mid) (markets d)"

text \<open>
  \<^verbatim>\<open>create_vendor_profile\<close> depends on \<^verbatim>\<open>get_current_active_user\<close> only and tests the
  role in its body. \<open>new_id\<close> is the primary key the database assigns.
\<close>

definition create_vendor_profile ::
  "VendorCreate \<Rightarrow> int \<Rightarrow> User \<Rightarrow> db \<Rightarrow> HTTPException + (db \<times> VendorResponse)" where
  "create_vendor_profile vendor_data new_id current_user d =
     (if u_role current_user \<noteq> VENDOR
      then Inl (http_exception 403 ''Only users with vendor role can create vendor profiles'')
      else if vendor_by_user (u_id current_user) d \<noteq> None
      then Inl (http_exception 400 ''User already has a vendor profile'')
      else (case market_by_id (vc_market_id vendor_data) d of
              None \<Rightarrow> Inl (http_exception 404 ''Market not found'')
            | Some market \<Rightarrow>
                let db_vendor = \<lparr>v_id = new_id,
                                 v_user_id = u_id current_user,
                                 v_market_id = vc_market_id vendor_data,
                                 v_base = vc_base vendor_data,
                                 v_is_verified = False,
                                 v_total_reviews = 0\<rparr>
                in Inr (d\<lparr>vendors := vendors d @ [db_vendor]\<rparr>,
                        \<lparr>vr_vendor = db_vendor, vr_user = current_user,
                         vr_market_name = Some (m_name market),
                         vr_product_count = 0\<rparr>)))"

text \<open>
  \<^verbatim>\<open>get_my_products\<close> ends in a call of the public listing \<^verbatim>\<open>get_vendor_products\<close>,
  which is passed in as \<open>listing\<close>.
\<close>

definition get_my_products ::
  "(int \<Rightarrow> bool \<Rightarrow> db \<Rightarrow> HTTPException + 'r) \<Rightarrow> User \<Rightarrow> db \<Rightarrow> HTTPException + 'r" where
  "get_my_products listing current_user d =
     (if u_role current_user \<noteq> VENDOR
      then Inl (http_exception 403 ''Only vendors can access this endpoint'')
      else (case vendor_by_user (u_id current_user) d of
              None \<Rightarrow> Inl (http_exception 404 ''Vendor profile not found'')
            | Some vendor \<Rightarrow> listing (v_id vendor) False d))"

section \<open>Transitions of the exposed surface\<close>

text \<open>
  One request and the database it leaves. The handlers of \<^verbatim>\<open>app/api/auth.py\<close> are
  the only ones that write the \<^verbatim>\<open>users\<close> table: registration, the password change
  (behind \<^verbatim>\<open>get_current_active_user\<close>) and the activity toggle (behind
  \<^verbatim>\<open>require_admin\<close>). Login, refresh, profile, logout and the listings write nothing.
  Every handler of the market, vendor, product and category routers assigns to, adds and
  deletes rows of those four tables only; \<open>OtherRouters\<close> stands for any of them, with
  the tables it leaves. A request that raises commits nothing.
\<close>

datatype 't request =
    Register UserCreate int
  | ChangePassword 't PasswordChange
  | ToggleActive 't int
  | ReadOnly
  | OtherRouters "Vendor list" "Market list" "Category list" "Product list"

fun endpoint :: "'t auth_core \<Rightarrow> 't request \<Rightarrow> db \<Rightarrow> db" where
  "endpoint core (Register user_data new_id) d =
     (case register_user core user_data new_id d of
        Inl e \<Rightarrow> d
      | Inr (d', r) \<Rightarrow> d')"
| "endpoint core (ChangePassword credentials password_data) d =
     (case depends_active_user core credentials d of
        Inl e \<Rightarrow> d
      | Inr current_user \<Rightarrow>
          (case change_password core password_data current_user d of
             Inl e \<Rightarrow> d
           | Inr (d', msg) \<Rightarrow> d'))"
| "endpoint core (ToggleActive credentials uid) d =
     (case depends_gate require_admin core credentials d of
        Inl e \<Rightarrow> d
      | Inr current_user \<Rightarrow>
          (case toggle_user_active_status uid current_user d of
             Inl e \<Rightarrow> d
           | Inr (d', msg) \<Rightarrow> d'))"
| "endpoint core ReadOnly d = d"
| "endpoint core (OtherRouters vs ms cs ps) d =
     d\<lparr>vendors := vs, markets := ms, categories := cs, products := ps\<rparr>"

definition run_requests :: "'t auth_core \<Rightarrow> 't request list \<Rightarrow> db \<Rightarrow> db" where
  "run_requests core rqs d = fold (endpoint core) rqs d"

definition identity_and_role :: "db \<Rightarrow> (int \<times> UserRole) list" where
  "identity_and_role d = map (\<lambda>u. (u_id u, u_role u)) (users d)"

section \<open>Credential codec\<close>

text \<open>
  Modelled from the spec: \<^verbatim>\<open>app/core/auth.py\<close> (\<^verbatim>\<open>create_access_token\<close>,
  \<^verbatim>\<open>create_refresh_token\<close>, \<^verbatim>\<open>decode_access_token\<close>, \<^verbatim>\<open>decode_refresh_token\<close>) is
  missing from the sources. The specification gives both tokens the same claim shape and
  the same signing key, an expiry fixed at issue time, a decoder that fails on a bad
  signature, a malformed payload and an expired token, and requires that the refresh
  decoder rejects a token issued as an access token. A token is therefore its kind, its
  claims, its expiry time (seconds) and the key that signed it; a string that is no
  token at all is \<open>Malformed\<close>.
\<close>

datatype token_kind = AccessToken | RefreshToken

record signed_token =
  tok_kind :: token_kind
  tok_claims :: payload
  tok_exp :: int
  tok_key :: string

datatype wire_token = Malformed | Signed signed_token

text \<open>
  Modelled from the spec: \<^verbatim>\<open>issue_access(claims, ttl_minutes)\<close>, the missing
  \<^verbatim>\<open>create_access_token\<close>, signs the claims with the process-wide secret; the expiry
  is the issue time plus the time to live.
\<close>

definition issue_access :: "string \<Rightarrow> int \<Rightarrow> payload \<Rightarrow> int \<Rightarrow> wire_token" where
  "issue_access secret now claims ttl_minutes =
     Signed \<lparr>tok_kind = AccessToken, tok_claims = claims,
             tok_exp = now + ttl_minutes * 60, tok_key = secret\<rparr>"

text \<open>
  Modelled from the spec: \<^verbatim>\<open>issue_refresh(claims)\<close>, the missing
  \<^verbatim>\<open>create_refresh_token\<close>, has the same claim shape and the same signing key, and an
  expiry policy of its own.
\<close>

definition issue_refresh :: "string \<Rightarrow> int \<Rightarrow> int \<Rightarrow> payload \<Rightarrow> wire_token" where
  "issue_refresh secret now refresh_ttl claims =
     Signed \<lparr>tok_kind = RefreshToken, tok_claims = claims,
             tok_exp = now + refresh_ttl, tok_key = secret\<rparr>"

text \<open>
  Modelled from the spec: decoding fails on a malformed token, on a bad signature and on
  an expired token, and a token of the other kind is rejected.
\<close>

definition decode_kind :: "token_kind \<Rightarrow> string \<Rightarrow> int \<Rightarrow> wire_token \<Rightarrow> payload option" where
  "decode_kind k secret now w =
     (case w of
        Malformed \<Rightarrow> None
      | Signed t \<Rightarrow>
          if tok_key t \<noteq> secret then None
          else if tok_exp t \<le> now then None
          else if tok_kind t \<noteq> k then None
          else Some (tok_claims t))"

text \<open>
  Modelled from the spec: \<^verbatim>\<open>decode_access(token)\<close>, the missing
  \<^verbatim>\<open>decode_access_token\<close>.
\<close>

definition decode_access :: "string \<Rightarrow> int \<Rightarrow> wire_token \<Rightarrow> payload option" where
  "decode_access = decode_kind AccessToken"

text \<open>
  Modelled from the spec: \<^verbatim>\<open>decode_refresh(token)\<close>, the missing
  \<^verbatim>\<open>decode_refresh_token\<close>, with the same contract and used by the refresh flow only.
\<close>

definition decode_refresh :: "string \<Rightarrow> int \<Rightarrow> wire_token \<Rightarrow> payload option" where
  "decode_refresh = decode_kind RefreshToken"

text \<open>
  Modelled from the spec: the functions of the missing \<^verbatim>\<open>app/core/auth.py\<close> at one
  instant; \<open>issued\<close> is the clock when tokens are created, \<open>now\<close> the clock when they
  are decoded. Password hashing is left as given.
\<close>

definition spec_codec ::
  "string \<Rightarrow> int \<Rightarrow> int \<Rightarrow> int \<Rightarrow> (string \<Rightarrow> string \<Rightarrow> bool) \<Rightarrow> (string \<Rightarrow> string) \<Rightarrow>
   wire_token auth_core" where
  "spec_codec secret issued now refresh_ttl verify hash =
     \<lparr>verify_password = verify,
      get_password_hash = hash,
      create_access_token = issue_access secret issued,
      create_refresh_token = issue_refresh secret issued refresh_ttl,
      decode_access_token = decode_access secret now,
      decode_refresh_token = decode_refresh secret now\<rparr>"

section \<open>Example data\<close>

text \<open>
  A small database and a table-driven stand-in for the credential functions, used to
  run the handlers on concrete requests.
\<close>

definition example_user :: "int \<Rightarrow> string \<Rightarrow> UserRole \<Rightarrow> bool \<Rightarrow> User" where
  "example_user i e r a =
     \<lparr>u_id = i, u_email = e, u_phone = None, u_hashed_password = ''hash:password1'',
      u_full_name = ''Test User'', u_role = r, u_is_active = a, u_is_verified = False,
      u_profile_image = None, u_address = None, u_city = None, u_prefecture = None,
      u_country = ''Japan'', u_postal_code = None\<rparr>"

definition alice :: User where
  "alice = example_user 1 ''a@x.com'' CONSUMER True"

definition bob :: User where
  "bob = example_user 2 ''b@x.com'' VENDOR False"

definition root :: User where
  "root = example_user 3 ''root@x.com'' ADMIN True"

definition example_category :: "int \<Rightarrow> string \<Rightarrow> Category" where
  "example_category i n =
     \<lparr>c_id = i, c_name = n, c_name_ja = None, c_name_ne = None, c_description = None,
      c_icon = None, c_is_active = True\<rparr>"

definition example_db :: db where
  "example_db =
     \<lparr>users = [alice, bob, root],
      vendors = [],
      markets = [\<lparr>m_id = 1, m_name = ''Central'', m_is_active = True\<rparr>],
      categories = [example_category 1 ''Vegetables'', example_category 2 ''Fruit''],
      products = [\<lparr>p_id = 1, p_vendor_id = 1, p_category_id = 1, p_name = ''Carrot'',
                   p_is_available = True, p_main_image = None\<rparr>]\<rparr>"

definition claims_of :: "string \<Rightarrow> int \<Rightarrow> string \<Rightarrow> payload" where
  "claims_of e i r = \<lparr>sub = Some e, user_id = Some i, role = Some r\<rparr>"

definition claim_text :: "payload \<Rightarrow> string" where
  "claim_text pl =
     (case sub pl of None \<Rightarrow> [] | Some e \<Rightarrow> e) @ '':'' @
     (case role pl of None \<Rightarrow> [] | Some r \<Rightarrow> r)"

definition example_core :: "string auth_core" where
  "example_core =
     \<lparr>verify_password = (\<lambda>pw h. h = ''hash:'' @ pw),
      get_password_hash = (\<lambda>pw. ''hash:'' @ pw),
      create_access_token = (\<lambda>pl minutes. ''access:'' @ claim_text pl),
      create_refresh_token = (\<lambda>pl. ''refresh:'' @ claim_text pl),
      decode_access_token = map_of
        [(''tok-alice'', claims_of ''a@x.com'' 1 ''consumer''),
         (''tok-bob'', claims_of ''b@x.com'' 2 ''vendor''),
         (''tok-root'', claims_of ''root@x.com'' 3 ''admin''),
         (''tok-nosub'', \<lparr>sub = None, user_id = Some 1, role = Some ''consumer''\<rparr>),
         (''tok-ghost'', claims_of ''g@x.com'' 99 ''consumer'')],
      decode_refresh_token = map_of
        [(''ref-alice'', claims_of ''a@x.com'' 1 ''consumer''),
         (''ref-alice-old'', claims_of ''old@x.com'' 1 ''vendor''),
         (''ref-bob'', claims_of ''b@x.com'' 2 ''vendor''),
         (''ref-ghost'', claims_of ''g@x.com'' 99 ''consumer'')]\<rparr>"

definition example_vendor_data :: VendorCreate where
  "example_vendor_data =
     \<lparr>vc_base = \<lparr>business_name = ''Root Farm'', business_description = None,
                  specialties = None, business_phone = None, website = None,
                  social_media = None, available_days = None, available_from = None,
                  available_to = None\<rparr>,
      vc_market_id = 1\<rparr>"

definition example_listing :: "int \<Rightarrow> bool \<Rightarrow> db \<Rightarrow> HTTPException + Product list" where
  "example_listing vendor_id available_only d =
     Inr (filter (\<lambda>p. p_vendor_id p = vendor_id \<and> (available_only \<longrightarrow> p_is_available p))
            (products d))"

definition example_codec :: "wire_token auth_core" where
  "example_codec =
     spec_codec ''secret'' 1000 1600 604800
       (verify_password example_core) (get_password_hash example_core)"

definition example_access_token :: wire_token where
  "example_access_token =
     issue_access ''secret'' 1000 (claims_of ''a@x.com'' 1 ''consumer'') 30"

definition example_suffix :: "string \<Rightarrow> string" where
  "example_suffix n =
     (case map_of [(''photo.PNG'', ''.png''), (''notes.txt'', ''.txt'')] n of
        None \<Rightarrow> []
      | Some e \<Rightarrow> e)"

definition example_env :: io_env where
  "example_env =
     \<lparr>suffix_lower = example_suffix,
      uuid4 = ''0f8fad5b-d9cb-469f-a165-70867728950e'',
      write_result = Written,
      make_thumbnail = (\<lambda>img. if img = [137, 80, 78, 71] then Some [9] else None),
      unlink_raises = (\<lambda>p. False)\<rparr>"

definition no_files :: filesystem where
  "no_files = Map.empty"

definition undecodable_upload :: UploadFile where
  "undecodable_upload =
     \<lparr>content_type = Some ''image/png'', filename = Some ''photo.PNG'', content = [0, 2, 4]\<rparr>"

definition text_upload :: UploadFile where
  "text_upload =
     \<lparr>content_type = Some ''text/plain'', filename = Some ''notes.txt'', content = [104, 105]\<rparr>"

definition oversized_upload :: UploadFile where
  "oversized_upload =
     \<lparr>content_type = Some ''image/png'', filename = Some ''photo.PNG'',
      content = replicate (Suc MAX_FILE_SIZE) 0\<rparr>"

definition png_upload :: UploadFile where
  "png_upload =
     \<lparr>content_type = Some ''image/png'', filename = Some ''photo.PNG'',
      content = [137, 80, 78, 71]\<rparr>"

definition disk_full_env :: io_env where
  "disk_full_env = example_env\<lparr>write_result := WriteFailed [137] ''disk full''\<rparr>"

definition read_only_env :: io_env where
  "read_only_env =
     example_env\<lparr>write_result := WriteFailed [137] ''disk full'', unlink_raises := (\<lambda>p. True)\<rparr>"

definition locked_env :: io_env where
  "locked_env = example_env\<lparr>unlink_raises := (\<lambda>p. True)\<rparr>"

definition other_env :: io_env where
  "other_env = example_env\<lparr>uuid4 := ''7c9e6679-7425-40de-944b-e07fc1f90ae7''\<rparr>"

definition stored_name :: string where
  "stored_name = ''0f8fad5b-d9cb-469f-a165-70867728950e.png''"

definition stored_path :: path where
  "stored_path = [''uploads'', ''products'', ''0f8fad5b-d9cb-469f-a165-70867728950e.png'']"

definition stored_thumb_path :: path where
  "stored_thumb_path =
     [''uploads'', ''products'', ''thumb_0f8fad5b-d9cb-469f-a165-70867728950e.png'']"

definition stored_files :: filesystem where
  "stored_files =
     no_files(stored_path \<mapsto> File [137, 80, 78, 71], stored_thumb_path \<mapsto> File [9])"

definition upload_dirs :: filesystem where
  "upload_dirs =
     no_files([''uploads''] \<mapsto> Directory, [''uploads'', ''products''] \<mapsto> Directory)"

definition example_requests :: "string request list" where
  "example_requests =
     [Register \<lparr>uc_email = ''c@x.com'', uc_full_name = ''Carol'', uc_phone = None,
                uc_address = None, uc_city = None, uc_prefecture = None,
                uc_country = ''Japan'', uc_postal_code = None,
                uc_password = ''password2'', uc_role = VENDOR\<rparr> 4,
      ChangePassword ''tok-alice''
        \<lparr>current_password = ''password1'', new_password = ''password9''\<rparr>,
      ToggleActive ''tok-root'' 1,
      OtherRouters [] [] [] []]"

section \<open>Identity resolution\<close>

lemma find_map_comp: "find P (map g xs) = map_option g (find (\<lambda>x. P (g x)) xs)"
  by (induction xs) simp_all

lemma user_by_id_update_user:
  "user_by_id uid (update_user pk f d) =
     map_option (\<lambda>u. if u_id u = pk then f u else u)
       (find (\<lambda>u. Some (u_id (if u_id u = pk then f u else u)) = uid) (users d))"
  by (simp add: user_by_id_def update_user_def find_map_comp)

lemma user_by_id_update_keeps_id:
  assumes "\<And>u. u_id (f u) = u_id u"
  shows "user_by_id uid (update_user pk f d) =
     map_option (\<lambda>u. if u_id u = pk then f u else u) (user_by_id uid d)"
proof -
  have "(\<lambda>u. Some (u_id (if u_id u = pk then f u else u)) = uid) = (\<lambda>u. Some (u_id u) = uid)"
    using assms by (auto simp: fun_eq_iff)
  then show ?thesis
    by (simp add: user_by_id_update_user) (simp add: user_by_id_def)
qed

lemma user_by_id_Some_id: "user_by_id uid d = Some u \<Longrightarrow> uid = Some (u_id u)"
  by (auto simp: user_by_id_def find_Some_iff)

lemma get_current_user_Inr:
  "get_current_user core tok d = Inr u \<Longrightarrow>
   \<exists>pl. decode_access_token core tok = Some pl \<and> sub pl \<noteq> None \<and> user_id pl = Some (u_id u)
        \<and> user_by_id (user_id pl) d = Some u \<and> u_is_active u"
  by (auto simp: get_current_user_def Let_def split: option.splits if_splits dest: user_by_id_Some_id)

text \<open>
  C1. Identity resolution answers 401 (\<open>credentials_exception\<close>) when the token does not
  decode, when the subject or the user id is missing from its claims, and when no user
  has the token's user id; it answers the distinct 400 \<open>Inactive user\<close> for a user that
  is found but inactive; otherwise it returns the stored user record. Since the record
  is read from the database on every request, once the activity toggle has switched an
  active user off, the next request with the same still-decodable token fails with
  \<open>Inactive user\<close>.
\<close>

theorem get_current_user_classification:
  "status_code credentials_exception = 401 \<and>
   status_code (http_exception 400 ''Inactive user'') = 400 \<and>
   (decode_access_token core tok = None \<longrightarrow>
      get_current_user core tok d = Inl credentials_exception) \<and>
   (\<forall>pl. decode_access_token core tok = Some pl \<and> (sub pl = None \<or> user_id pl = None) \<longrightarrow>
      get_current_user core tok d = Inl credentials_exception) \<and>
   (\<forall>pl. decode_access_token core tok = Some pl \<and> user_by_id (user_id pl) d = None \<longrightarrow>
      get_current_user core tok d = Inl credentials_exception) \<and>
   (\<forall>pl u. decode_access_token core tok = Some pl \<and> sub pl \<noteq> None \<and>
      user_by_id (user_id pl) d = Some u \<and> \<not> u_is_active u \<longrightarrow>
      get_current_user core tok d = Inl (http_exception 400 ''Inactive user'')) \<and>
   (\<forall>pl u. decode_access_token core tok = Some pl \<and> sub pl \<noteq> None \<and>
      user_by_id (user_id pl) d = Some u \<and> u_is_active u \<longrightarrow>
      get_current_user core tok d = Inr u \<and> depends_active_user core tok d = Inr u) \<and>
   (\<forall>u admin d' msg. get_current_user core tok d = Inr u \<and>
      toggle_user_active_status (u_id u) admin d = Inr (d', msg) \<longrightarrow>
      get_current_user core tok d' = Inl (http_exception 400 ''Inactive user'') \<and>
      depends_active_user core tok d' = Inl (http_exception 400 ''Inactive user''))"
proof (intro conjI allI impI)
  show "status_code credentials_exception = 401"
    by (simp add: credentials_exception_def)
  show "status_code (http_exception 400 ''Inactive user'') = 400"
    by (simp add: http_exception_def)
next
  assume "decode_access_token core tok = None"
  then show "get_current_user core tok d = Inl credentials_exception"
    by (simp add: get_current_user_def)
next
  fix pl
  assume "decode_access_token core tok = Some pl \<and> (sub pl = None \<or> user_id pl = None)"
  then show "get_current_user core tok d = Inl credentials_exception"
    by (auto simp: get_current_user_def)
next
  fix pl
  assume "decode_access_token core tok = Some pl \<and> user_by_id (user_id pl) d = None"
  then show "get_current_user core tok d = Inl credentials_exception"
    by (auto simp: get_current_user_def Let_def)
next
  fix pl u
  assume "decode_access_token core tok = Some pl \<and> sub pl \<noteq> None \<and>
      user_by_id (user_id pl) d = Some u \<and> \<not> u_is_active u"
  then show "get_current_user core tok d = Inl (http_exception 400 ''Inactive user'')"
    by (auto simp: get_current_user_def Let_def dest: user_by_id_Some_id)
next
  fix pl u
  assume a: "decode_access_token core tok = Some pl \<and> sub pl \<noteq> None \<and>
      user_by_id (user_id pl) d = Some u \<and> u_is_active u"
  then show g: "get_current_user core tok d = Inr u"
    by (auto simp: get_current_user_def Let_def dest: user_by_id_Some_id)
  show "depends_active_user core tok d = Inr u"
    using a by (simp add: depends_active_user_def g get_current_active_user_def)
next
  fix u admin d' msg
  assume a: "get_current_user core tok d = Inr u \<and>
      toggle_user_active_status (u_id u) admin d = Inr (d', msg)"
  then obtain pl where pl: "decode_access_token core tok = Some pl" "sub pl \<noteq> None"
      "user_id pl = Some (u_id u)" "user_by_id (user_id pl) d = Some u" "u_is_active u"
    using get_current_user_Inr [of core tok d u] by auto
  from a pl have d': "d' = update_user (u_id u) (\<lambda>v. v\<lparr>u_is_active := False\<rparr>) d"
    by (simp add: toggle_user_active_status_def Let_def)
  have "user_by_id (user_id pl) d' =
          map_option (\<lambda>v. if u_id v = u_id u then v\<lparr>u_is_active := False\<rparr> else v)
            (user_by_id (user_id pl) d)"
    unfolding d' by (rule user_by_id_update_keeps_id) simp
  then have "user_by_id (user_id pl) d' = Some (u\<lparr>u_is_active := False\<rparr>)"
    by (simp add: pl(4))
  with pl show g: "get_current_user core tok d' = Inl (http_exception 400 ''Inactive user'')"
    by (auto simp: get_current_user_def Let_def)
  show "depends_active_user core tok d' = Inl (http_exception 400 ''Inactive user'')"
    by (simp add: depends_active_user_def g)
qed

theorem get_current_user_classification_witness:
  "get_current_user example_core ''garbage'' example_db = Inl credentials_exception \<and>
   get_current_user example_core ''tok-nosub'' example_db = Inl credentials_exception \<and>
   get_current_user example_core ''tok-ghost'' example_db = Inl credentials_exception \<and>
   get_current_user example_core ''tok-bob'' example_db =
     Inl (http_exception 400 ''Inactive user'') \<and>
   get_current_user example_core ''tok-alice'' example_db = Inr alice \<and>
   toggle_user_active_status (u_id alice) root example_db =
     Inr (update_user 1 (\<lambda>u. u\<lparr>u_is_active := False\<rparr>) example_db,
          ''User deactivated successfully'') \<and>
   get_current_user example_core ''tok-alice''
       (update_user 1 (\<lambda>u. u\<lparr>u_is_active := False\<rparr>) example_db) =
     Inl (http_exception 400 ''Inactive user'')"
proof -
  note fixtures = example_core_def example_db_def alice_def bob_def root_def
    example_user_def claims_of_def user_by_id_def
  have garbage: "decode_access_token example_core ''garbage'' = None"
    by (simp add: fixtures)
  have nosub: "decode_access_token example_core ''tok-nosub'' =
        Some \<lparr>sub = None, user_id = Some 1, role = Some ''consumer''\<rparr>"
    by (simp add: fixtures)
  have ghost: "decode_access_token example_core ''tok-ghost'' =
        Some (claims_of ''g@x.com'' 99 ''consumer'')"
      "user_by_id (user_id (claims_of ''g@x.com'' 99 ''consumer'')) example_db = None"
    by (simp_all add: fixtures)
  have tbob: "decode_access_token example_core ''tok-bob'' =
        Some (claims_of ''b@x.com'' 2 ''vendor'')"
      "sub (claims_of ''b@x.com'' 2 ''vendor'') \<noteq> None"
      "user_by_id (user_id (claims_of ''b@x.com'' 2 ''vendor'')) example_db = Some bob"
      "\<not> u_is_active bob"
    by (simp_all add: fixtures)
  have talice: "decode_access_token example_core ''tok-alice'' =
        Some (claims_of ''a@x.com'' 1 ''consumer'')"
      "sub (claims_of ''a@x.com'' 1 ''consumer'') \<noteq> None"
      "user_by_id (user_id (claims_of ''a@x.com'' 1 ''consumer'')) example_db = Some alice"
      "u_is_active alice"
    by (simp_all add: fixtures)
  have toggled: "toggle_user_active_status (u_id alice) root example_db =
     Inr (update_user 1 (\<lambda>u. u\<lparr>u_is_active := False\<rparr>) example_db,
          ''User deactivated successfully'')"
    by (simp add: toggle_user_active_status_def fixtures)
  have r1: "get_current_user example_core ''garbage'' example_db = Inl credentials_exception"
    using get_current_user_classification [of example_core "''garbage''" example_db] garbage
    by blast
  have r2: "get_current_user example_core ''tok-nosub'' example_db = Inl credentials_exception"
    using get_current_user_classification [of example_core "''tok-nosub''" example_db] nosub
    by simp
  have r3: "get_current_user example_core ''tok-ghost'' example_db = Inl credentials_exception"
    using get_current_user_classification [of example_core "''tok-ghost''" example_db] ghost
    by blast
  have r4: "get_current_user example_core ''tok-bob'' example_db =
      Inl (http_exception 400 ''Inactive user'')"
    using get_current_user_classification [of example_core "''tok-bob''" example_db] tbob
    by blast
  have r5: "get_current_user example_core ''tok-alice'' example_db = Inr alice"
    using get_current_user_classification [of example_core "''tok-alice''" example_db] talice
    by blast
  have r6: "get_current_user example_core ''tok-alice''
       (update_user 1 (\<lambda>u. u\<lparr>u_is_active := False\<rparr>) example_db) =
     Inl (http_exception 400 ''Inactive user'')"
    using get_current_user_classification [of example_core "''tok-alice''" example_db]
      r5 toggled by blast
  from r1 r2 r3 r4 r5 toggled r6 show ?thesis by blast
qed

section \<open>Login\<close>

text \<open>
  C2. Login raises one and the same 401 exception when no user has the email and when
  the password does not verify, whatever the account's activity; only an existing
  account whose password verifies and which is inactive gets the 400
  \<open>Inactive user account\<close>; an existing, verified, active account gets an access token and
  a refresh token.
\<close>

theorem login_user_classification:
  "(user_by_email (ul_email login_data) d = None \<longrightarrow>
      login_user core login_data d =
        Inl \<lparr>status_code = 401, detail = ''Incorrect email or password'',
             headers = [(''WWW-Authenticate'', ''Bearer'')]\<rparr>) \<and>
   (\<forall>u. user_by_email (ul_email login_data) d = Some u \<and>
        \<not> verify_password core (ul_password login_data) (u_hashed_password u) \<longrightarrow>
      login_user core login_data d =
        Inl \<lparr>status_code = 401, detail = ''Incorrect email or password'',
             headers = [(''WWW-Authenticate'', ''Bearer'')]\<rparr>) \<and>
   (\<forall>u. user_by_email (ul_email login_data) d = Some u \<and>
        verify_password core (ul_password login_data) (u_hashed_password u) \<and>
        \<not> u_is_active u \<longrightarrow>
      login_user core login_data d = Inl (http_exception 400 ''Inactive user account'')) \<and>
   (\<forall>u. user_by_email (ul_email login_data) d = Some u \<and>
        verify_password core (ul_password login_data) (u_hashed_password u) \<and>
        u_is_active u \<longrightarrow>
      login_user core login_data d =
        Inr \<lparr>access_token =
               create_access_token core (token_claims u) ACCESS_TOKEN_EXPIRE_MINUTES,
             refresh_token = create_refresh_token core (token_claims u),
             token_type = ''bearer'',
             expires_in = ACCESS_TOKEN_EXPIRE_MINUTES * 60\<rparr>) \<and>
   (login_user core login_data d = Inl (http_exception 400 ''Inactive user account'') \<longrightarrow>
      (\<exists>u. user_by_email (ul_email login_data) d = Some u \<and>
           verify_password core (ul_password login_data) (u_hashed_password u) \<and>
           \<not> u_is_active u))"
  by (auto simp: login_user_def Let_def issue_tokens_def http_exception_def
           split: option.splits if_splits)

theorem login_user_classification_witness:
  "login_user example_core \<lparr>ul_email = ''nobody@x.com'', ul_password = ''password1''\<rparr> example_db =
     Inl \<lparr>status_code = 401, detail = ''Incorrect email or password'',
          headers = [(''WWW-Authenticate'', ''Bearer'')]\<rparr> \<and>
   login_user example_core \<lparr>ul_email = ''a@x.com'', ul_password = ''wrong''\<rparr> example_db =
     Inl \<lparr>status_code = 401, detail = ''Incorrect email or password'',
          headers = [(''WWW-Authenticate'', ''Bearer'')]\<rparr> \<and>
   login_user example_core \<lparr>ul_email = ''b@x.com'', ul_password = ''wrong''\<rparr> example_db =
     Inl \<lparr>status_code = 401, detail = ''Incorrect email or password'',
          headers = [(''WWW-Authenticate'', ''Bearer'')]\<rparr> \<and>
   login_user example_core \<lparr>ul_email = ''b@x.com'', ul_password = ''password1''\<rparr> example_db =
     Inl (http_exception 400 ''Inactive user account'') \<and>
   login_user example_core \<lparr>ul_email = ''a@x.com'', ul_password = ''password1''\<rparr> example_db =
     Inr \<lparr>access_token = ''access:a@x.com:consumer'',
          refresh_token = ''refresh:a@x.com:consumer'',
          token_type = ''bearer'', expires_in = 1800\<rparr>"
proof -
  note fixtures = example_core_def example_db_def alice_def bob_def root_def
    example_user_def user_by_email_def
  have nobody: "user_by_email ''nobody@x.com'' example_db = None"
    by (simp add: fixtures)
  have a: "user_by_email ''a@x.com'' example_db = Some alice"
    by (simp add: fixtures)
  have b: "user_by_email ''b@x.com'' example_db = Some bob"
    by (simp add: fixtures)
  have bad: "\<not> verify_password example_core ''wrong'' (u_hashed_password alice)"
      "\<not> verify_password example_core ''wrong'' (u_hashed_password bob)"
    by (simp_all add: fixtures)
  have good: "verify_password example_core ''password1'' (u_hashed_password alice)"
      "verify_password example_core ''password1'' (u_hashed_password bob)"
    by (simp_all add: fixtures)
  have act: "u_is_active alice" "\<not> u_is_active bob"
    by (simp_all add: fixtures)
  have toks: "create_access_token example_core (token_claims alice) ACCESS_TOKEN_EXPIRE_MINUTES
        = ''access:a@x.com:consumer''"
      "create_refresh_token example_core (token_claims alice) = ''refresh:a@x.com:consumer''"
      "ACCESS_TOKEN_EXPIRE_MINUTES * 60 = 1800"
    by (simp_all add: fixtures token_claims_def claim_text_def ACCESS_TOKEN_EXPIRE_MINUTES_def)
  show ?thesis
    using login_user_classification
            [of "\<lparr>ul_email = ''nobody@x.com'', ul_password = ''password1''\<rparr>" example_db example_core]
          login_user_classification
            [of "\<lparr>ul_email = ''a@x.com'', ul_password = ''wrong''\<rparr>" example_db example_core]
          login_user_classification
            [of "\<lparr>ul_email = ''b@x.com'', ul_password = ''wrong''\<rparr>" example_db example_core]
          login_user_classification
            [of "\<lparr>ul_email = ''b@x.com'', ul_password = ''password1''\<rparr>" example_db example_core]
          login_user_classification
            [of "\<lparr>ul_email = ''a@x.com'', ul_password = ''password1''\<rparr>" example_db example_core]
          nobody a b bad good act toks
    by simp
qed

section \<open>Role gates\<close>

lemma sublist_prepend: "sublist x y \<Longrightarrow> sublist x (p @ y)"
proof -
  assume "sublist x y"
  then obtain ps ss where "y = ps @ x @ ss" by (auto simp: sublist_def)
  then have "p @ y = (p @ ps) @ x @ ss" by simp
  then show ?thesis unfolding sublist_def by blast
qed

lemma sublist_join:
  "x \<in> set xs \<Longrightarrow> sublist x (join sep xs)"
proof (induction sep xs rule: join.induct)
  case (1 sep)
  then show ?case by simp
next
  case (2 sep x')
  then show ?case by simp
next
  case (3 sep a b ys)
  show ?case
  proof (cases "x = a")
    case True
    then show ?thesis by simp
  next
    case False
    with 3 have "sublist x (join sep (b # ys))" by simp
    then have "sublist x ((a @ sep) @ join sep (b # ys))"
      by (rule sublist_prepend)
    then show ?thesis by simp
  qed
qed

lemma roles_detail_names:
  "r \<in> set rs \<Longrightarrow> sublist (role_value r) (pre @ join sep (map role_value rs))"
  by (rule sublist_prepend, rule sublist_join) simp

lemma role_detail_names: "sublist x (pre @ x @ post)"
  by (rule sublist_appendI)

text \<open>
  C3. The role gate is a function of the resolved user and the allowed roles: it returns
  the user unchanged when the user's role is allowed and otherwise raises 403 with a
  detail that contains the name of every allowed role. The single-role constructor
  behaves as the role-list constructor on a one-element list (same outcome, same status
  code), and the admin-only, vendor-only, consumer-only and vendor-or-admin gates are
  applications of these constructors.
\<close>

theorem role_gate_primitive:
  "(u_role u \<in> set rs \<longrightarrow> require_roles rs u = Inr u) \<and>
   (u_role u \<notin> set rs \<longrightarrow>
      (\<exists>e. require_roles rs u = Inl e \<and> status_code e = 403 \<and>
           (\<forall>r \<in> set rs. sublist (role_value r) (detail e)))) \<and>
   (u_role u \<in> {r} \<longrightarrow> require_role r u = Inr u) \<and>
   (u_role u \<notin> {r} \<longrightarrow>
      (\<exists>e. require_role r u = Inl e \<and> status_code e = 403 \<and>
           (\<forall>r' \<in> {r}. sublist (role_value r') (detail e)))) \<and>
   map_sum status_code (\<lambda>x. x) (require_role r u) =
     map_sum status_code (\<lambda>x. x) (require_roles [r] u) \<and>
   require_admin = require_role ADMIN \<and>
   require_vendor = require_role VENDOR \<and>
   require_consumer = require_role CONSUMER \<and>
   require_vendor_or_admin = require_roles [VENDOR, ADMIN]"
proof (intro conjI impI)
  show "require_roles rs u = Inr u" if "u_role u \<in> set rs"
    using that by (simp add: require_roles_def)
  show "\<exists>e. require_roles rs u = Inl e \<and> status_code e = 403 \<and>
           (\<forall>r \<in> set rs. sublist (role_value r) (detail e))" if "u_role u \<notin> set rs"
  proof -
    have "\<forall>r \<in> set rs. sublist (role_value r)
            (''Operation requires one of these roles: '' @ join '', '' (map role_value rs))"
      by (intro ballI roles_detail_names)
    with that show ?thesis
      by (simp only: require_roles_def http_exception_def Let_def if_True
            HTTPException.simps sum.inject simp_thms ex_simps)
  qed
  show "require_role r u = Inr u" if "u_role u \<in> {r}"
    using that by (simp add: require_role_def)
  show "\<exists>e. require_role r u = Inl e \<and> status_code e = 403 \<and>
           (\<forall>r' \<in> {r}. sublist (role_value r') (detail e))" if "u_role u \<notin> {r}"
    using that role_detail_names [of "role_value r" "''Operation requires ''" "'' role''"]
    by (simp only: require_role_def http_exception_def HTTPException.simps) simp
  show "map_sum status_code (\<lambda>x. x) (require_role r u) =
     map_sum status_code (\<lambda>x. x) (require_roles [r] u)"
    by (simp add: require_role_def require_roles_def http_exception_def)
qed (simp_all add: require_admin_def require_vendor_def require_consumer_def
       require_vendor_or_admin_def)

theorem role_gate_primitive_witness:
  "require_roles [VENDOR, ADMIN] root = Inr root \<and>
   require_roles [VENDOR, ADMIN] alice =
     Inl (http_exception 403 ''Operation requires one of these roles: vendor, admin'') \<and>
   sublist ''vendor'' ''Operation requires one of these roles: vendor, admin'' \<and>
   sublist ''admin'' ''Operation requires one of these roles: vendor, admin'' \<and>
   require_role ADMIN root = Inr root \<and>
   require_role ADMIN alice = Inl (http_exception 403 ''Operation requires admin role'') \<and>
   sublist ''admin'' ''Operation requires admin role''"
proof -
  note fixtures = alice_def root_def example_user_def
  have roles: "u_role root \<in> set [VENDOR, ADMIN]" "u_role alice \<notin> set [VENDOR, ADMIN]"
      "u_role root \<in> {ADMIN}" "u_role alice \<notin> {ADMIN}"
    by (simp_all add: fixtures)
  have e1: "require_roles [VENDOR, ADMIN] alice =
     Inl (http_exception 403 ''Operation requires one of these roles: vendor, admin'')"
    by (simp add: require_roles_def fixtures)
  have e2: "require_role ADMIN alice = Inl (http_exception 403 ''Operation requires admin role'')"
    by (simp add: require_role_def fixtures)
  from role_gate_primitive [of root "[VENDOR, ADMIN]" ADMIN] roles
  have p: "require_roles [VENDOR, ADMIN] root = Inr root" "require_role ADMIN root = Inr root"
    by blast+
  from role_gate_primitive [of alice "[VENDOR, ADMIN]" ADMIN] roles e1 e2
  have n: "sublist ''vendor'' ''Operation requires one of these roles: vendor, admin''"
      "sublist ''admin'' ''Operation requires one of these roles: vendor, admin''"
      "sublist ''admin'' ''Operation requires admin role''"
    by (simp_all add: http_exception_def)
  from p e1 e2 n show ?thesis by blast
qed

section \<open>Refresh\<close>

text \<open>
  C4. Refresh raises 401 when the refresh token does not decode; when it decodes, the
  user is looked up by the token's user id, and a missing or inactive user raises 401;
  otherwise both tokens are issued again from the stored user's current email, id and
  role, so that two refresh tokens naming the same user id give the same answer
  whatever subject and role they carry.
\<close>

theorem refresh_access_token_classification:
  "(decode_refresh_token core tok = None \<longrightarrow>
      refresh_access_token core tok d =
        Inl \<lparr>status_code = 401, detail = ''Invalid refresh token'',
             headers = [(''WWW-Authenticate'', ''Bearer'')]\<rparr>) \<and>
   (\<forall>pl. decode_refresh_token core tok = Some pl \<and> user_by_id (user_id pl) d = None \<longrightarrow>
      refresh_access_token core tok d = Inl (http_exception 401 ''User not found or inactive'')) \<and>
   (\<forall>pl u. decode_refresh_token core tok = Some pl \<and> user_by_id (user_id pl) d = Some u \<and>
        \<not> u_is_active u \<longrightarrow>
      refresh_access_token core tok d = Inl (http_exception 401 ''User not found or inactive'')) \<and>
   (\<forall>pl u. decode_refresh_token core tok = Some pl \<and> user_by_id (user_id pl) d = Some u \<and>
        u_is_active u \<longrightarrow>
      refresh_access_token core tok d =
        Inr \<lparr>access_token =
               create_access_token core
                 \<lparr>sub = Some (u_email u), user_id = Some (u_id u),
                  role = Some (role_value (u_role u))\<rparr> ACCESS_TOKEN_EXPIRE_MINUTES,
             refresh_token =
               create_refresh_token core
                 \<lparr>sub = Some (u_email u), user_id = Some (u_id u),
                  role = Some (role_value (u_role u))\<rparr>,
             token_type = ''bearer'',
             expires_in = ACCESS_TOKEN_EXPIRE_MINUTES * 60\<rparr>) \<and>
   (\<forall>tok' pl pl'. decode_refresh_token core tok = Some pl \<and>
        decode_refresh_token core tok' = Some pl' \<and> user_id pl' = user_id pl \<longrightarrow>
      refresh_access_token core tok' d = refresh_access_token core tok d)"
  by (auto simp: refresh_access_token_def issue_tokens_def token_claims_def
           split: option.splits)

theorem refresh_access_token_classification_witness:
  "refresh_access_token example_core ''garbage'' example_db =
     Inl \<lparr>status_code = 401, detail = ''Invalid refresh token'',
          headers = [(''WWW-Authenticate'', ''Bearer'')]\<rparr> \<and>
   refresh_access_token example_core ''ref-ghost'' example_db =
     Inl (http_exception 401 ''User not found or inactive'') \<and>
   refresh_access_token example_core ''ref-bob'' example_db =
     Inl (http_exception 401 ''User not found or inactive'') \<and>
   refresh_access_token example_core ''ref-alice-old'' example_db =
     Inr \<lparr>access_token = ''access:a@x.com:consumer'',
          refresh_token = ''refresh:a@x.com:consumer'',
          token_type = ''bearer'', expires_in = 1800\<rparr> \<and>
   refresh_access_token example_core ''ref-alice'' example_db =
     refresh_access_token example_core ''ref-alice-old'' example_db"
proof -
  note fixtures = example_core_def example_db_def alice_def bob_def root_def
    example_user_def claims_of_def user_by_id_def
  have garbage: "decode_refresh_token example_core ''garbage'' = None"
    by (simp add: fixtures)
  have ghost: "decode_refresh_token example_core ''ref-ghost'' =
        Some (claims_of ''g@x.com'' 99 ''consumer'')"
      "user_by_id (user_id (claims_of ''g@x.com'' 99 ''consumer'')) example_db = None"
    by (simp_all add: fixtures)
  have rbob: "decode_refresh_token example_core ''ref-bob'' =
        Some (claims_of ''b@x.com'' 2 ''vendor'')"
      "user_by_id (user_id (claims_of ''b@x.com'' 2 ''vendor'')) example_db = Some bob"
      "\<not> u_is_active bob"
    by (simp_all add: fixtures)
  have old: "decode_refresh_token example_core ''ref-alice-old'' =
        Some (claims_of ''old@x.com'' 1 ''vendor'')"
      "user_by_id (user_id (claims_of ''old@x.com'' 1 ''vendor'')) example_db = Some alice"
      "u_is_active alice"
    by (simp_all add: fixtures)
  have new: "decode_refresh_token example_core ''ref-alice'' =
        Some (claims_of ''a@x.com'' 1 ''consumer'')"
      "user_id (claims_of ''a@x.com'' 1 ''consumer'') = user_id (claims_of ''old@x.com'' 1 ''vendor'')"
    by (simp_all add: fixtures)
  have toks: "create_access_token example_core
          \<lparr>sub = Some (u_email alice), user_id = Some (u_id alice),
           role = Some (role_value (u_role alice))\<rparr> ACCESS_TOKEN_EXPIRE_MINUTES
        = ''access:a@x.com:consumer''"
      "create_refresh_token example_core
          \<lparr>sub = Some (u_email alice), user_id = Some (u_id alice),
           role = Some (role_value (u_role alice))\<rparr> = ''refresh:a@x.com:consumer''"
      "ACCESS_TOKEN_EXPIRE_MINUTES * 60 = 1800"
    by (simp_all add: fixtures claim_text_def ACCESS_TOKEN_EXPIRE_MINUTES_def)
  have r1: "refresh_access_token example_core ''garbage'' example_db =
     Inl \<lparr>status_code = 401, detail = ''Invalid refresh token'',
          headers = [(''WWW-Authenticate'', ''Bearer'')]\<rparr>"
    using refresh_access_token_classification [of example_core "''garbage''" example_db]
      garbage by blast
  have r2: "refresh_access_token example_core ''ref-ghost'' example_db =
     Inl (http_exception 401 ''User not found or inactive'')"
    using refresh_access_token_classification [of example_core "''ref-ghost''" example_db]
      ghost by blast
  have r3: "refresh_access_token example_core ''ref-bob'' example_db =
     Inl (http_exception 401 ''User not found or inactive'')"
    using refresh_access_token_classification [of example_core "''ref-bob''" example_db]
      rbob by blast
  have "refresh_access_token example_core ''ref-alice-old'' example_db =
        Inr \<lparr>access_token =
               create_access_token example_core
                 \<lparr>sub = Some (u_email alice), user_id = Some (u_id alice),
                  role = Some (role_value (u_role alice))\<rparr> ACCESS_TOKEN_EXPIRE_MINUTES,
             refresh_token =
               create_refresh_token example_core
                 \<lparr>sub = Some (u_email alice), user_id = Some (u_id alice),
                  role = Some (role_value (u_role alice))\<rparr>,
             token_type = ''bearer'',
             expires_in = ACCESS_TOKEN_EXPIRE_MINUTES * 60\<rparr>"
    using refresh_access_token_classification [of example_core "''ref-alice-old''" example_db]
      old by blast
  then have r4: "refresh_access_token example_core ''ref-alice-old'' example_db =
     Inr \<lparr>access_token = ''access:a@x.com:consumer'',
          refresh_token = ''refresh:a@x.com:consumer'',
          token_type = ''bearer'', expires_in = 1800\<rparr>"
    by (simp only: toks)
  have r5: "refresh_access_token example_core ''ref-alice'' example_db =
     refresh_access_token example_core ''ref-alice-old'' example_db"
    using refresh_access_token_classification [of example_core "''ref-alice-old''" example_db]
      old(1) new by blast
  from r1 r2 r3 r4 r5 show ?thesis by blast
qed

section \<open>Token kinds\<close>

lemma decode_refresh_accepts_refresh:
  "now < issued + refresh_ttl \<Longrightarrow>
   decode_refresh secret now (issue_refresh secret issued refresh_ttl claims) = Some claims"
  by (simp add: decode_refresh_def decode_kind_def issue_refresh_def)

text \<open>
  C5. Against the codec of the specification, the refresh operation fails with 401
  \<open>Invalid refresh token\<close> on every token that was issued as an access token, also on
  one signed with the right key and not yet expired, which the access decoder accepts.
\<close>

theorem refresh_rejects_access_token:
  "refresh_access_token (spec_codec secret issued now refresh_ttl verify hash)
     (issue_access secret' issued' claims ttl_minutes) d =
     Inl \<lparr>status_code = 401, detail = ''Invalid refresh token'',
          headers = [(''WWW-Authenticate'', ''Bearer'')]\<rparr> \<and>
   (now < issued' + ttl_minutes * 60 \<longrightarrow>
      decode_access_token (spec_codec secret issued now refresh_ttl verify hash)
        (issue_access secret issued' claims ttl_minutes) = Some claims)"
  by (simp add: refresh_access_token_def spec_codec_def decode_refresh_def decode_access_def
        decode_kind_def issue_access_def)

theorem refresh_rejects_access_token_witness:
  "decode_access_token example_codec example_access_token =
     Some (claims_of ''a@x.com'' 1 ''consumer'') \<and>
   refresh_access_token example_codec example_access_token example_db =
     Inl \<lparr>status_code = 401, detail = ''Invalid refresh token'',
          headers = [(''WWW-Authenticate'', ''Bearer'')]\<rparr>"
proof -
  have live: "(1600::int) < 1000 + 30 * 60" by simp
  from refresh_rejects_access_token
         [of "''secret''" 1000 1600 604800 "verify_password example_core"
             "get_password_hash example_core" "''secret''" 1000
             "claims_of ''a@x.com'' 1 ''consumer''" 30 example_db] live
  show ?thesis
    by (simp add: example_codec_def example_access_token_def)
qed

section \<open>Exact-match gates\<close>

text \<open>
  C10. A single-role gate passes a user exactly when the user's role equals the required
  role, and raises 403 otherwise; this holds for every user resolved by the dependency
  chain. There is no bypass for administrators: an admin is refused with 403 by the
  vendor-only gate, by the creation of a vendor profile and by the listing of the
  caller's own products, and passes the vendor-or-admin gate.
\<close>

theorem role_gate_exact_match:
  "(require_role r u = Inr u \<longleftrightarrow> u_role u = r) \<and>
   (u_role u \<noteq> r \<longrightarrow> (\<exists>e. require_role r u = Inl e \<and> status_code e = 403)) \<and>
   (depends_active_user core tok d = Inr u \<longrightarrow>
      (depends_gate (require_role r) core tok d = Inr u \<longleftrightarrow> u_role u = r) \<and>
      (u_role u \<noteq> r \<longrightarrow>
         (\<exists>e. depends_gate (require_role r) core tok d = Inl e \<and> status_code e = 403))) \<and>
   (u_role u = ADMIN \<longrightarrow>
      (\<exists>e. require_vendor u = Inl e \<and> status_code e = 403) \<and>
      (\<exists>e. create_vendor_profile vendor_data new_id u d = Inl e \<and> status_code e = 403) \<and>
      (\<exists>e. get_my_products listing u d = Inl e \<and> status_code e = 403) \<and>
      require_vendor_or_admin u = Inr u)"
  by (auto simp: require_role_def require_roles_def require_vendor_def
        require_vendor_or_admin_def depends_gate_def create_vendor_profile_def
        get_my_products_def http_exception_def)

theorem role_gate_exact_match_witness:
  "depends_active_user example_core ''tok-root'' example_db = Inr root \<and>
   u_role root = ADMIN \<and>
   require_role ADMIN root = Inr root \<and>
   (\<exists>e. require_role VENDOR root = Inl e \<and> status_code e = 403) \<and>
   (\<exists>e. depends_gate (require_role VENDOR) example_core ''tok-root'' example_db = Inl e \<and>
        status_code e = 403) \<and>
   (\<exists>e. create_vendor_profile example_vendor_data 1 root example_db = Inl e \<and>
        status_code e = 403) \<and>
   (\<exists>e. get_my_products example_listing root example_db = Inl e \<and> status_code e = 403) \<and>
   require_vendor_or_admin root = Inr root"
proof -
  note fixtures = example_core_def example_db_def alice_def bob_def root_def
    example_user_def claims_of_def user_by_id_def
  have resolved: "depends_active_user example_core ''tok-root'' example_db = Inr root"
    by (simp add: depends_active_user_def get_current_user_def get_current_active_user_def
          fixtures)
  have admin: "u_role root = ADMIN" "u_role root \<noteq> VENDOR"
    by (simp_all add: fixtures)
  note as_admin = role_gate_exact_match
    [where r = ADMIN and u = root and core = example_core and tok = "''tok-root''"
       and d = example_db and vendor_data = example_vendor_data and new_id = 1
       and listing = example_listing]
  note as_vendor = role_gate_exact_match
    [where r = VENDOR and u = root and core = example_core and tok = "''tok-root''"
       and d = example_db and vendor_data = example_vendor_data and new_id = 1
       and listing = example_listing]
  from as_admin admin have p: "require_role ADMIN root = Inr root" by blast
  from as_vendor resolved admin show ?thesis
    using p by blast
qed

section \<open>Role immutability\<close>

lemma identity_and_role_update_user:
  assumes "\<And>u. u_id (f u) = u_id u" "\<And>u. u_role (f u) = u_role u"
  shows "identity_and_role (update_user pk f d) = identity_and_role d"
  using assms by (simp add: identity_and_role_def update_user_def)

lemma identity_and_role_endpoint:
  "prefix (identity_and_role d) (identity_and_role (endpoint core rq d))"
proof (cases rq)
  case (Register user_data new_id)
  then show ?thesis
    by (auto simp: register_user_def identity_and_role_def Let_def
             split: sum.splits if_splits)
next
  case (ChangePassword credentials password_data)
  then show ?thesis
    by (auto simp: change_password_def Let_def identity_and_role_update_user
             split: sum.splits if_splits)
next
  case (ToggleActive credentials uid)
  then show ?thesis
    by (auto simp: toggle_user_active_status_def Let_def identity_and_role_update_user
             split: sum.splits option.splits)
next
  case ReadOnly
  then show ?thesis by simp
next
  case (OtherRouters vs ms cs ps)
  then show ?thesis by (simp add: identity_and_role_def)
qed

lemma identity_and_role_run:
  "prefix (identity_and_role d) (identity_and_role (run_requests core rqs d))"
  unfolding run_requests_def
proof (induction rqs arbitrary: d)
  case Nil
  then show ?case by simp
next
  case (Cons rq rqs)
  have "prefix (identity_and_role d) (identity_and_role (endpoint core rq d))"
    by (rule identity_and_role_endpoint)
  also have "prefix \<dots> (identity_and_role (fold (endpoint core) rqs (endpoint core rq d)))"
    by (rule Cons.IH)
  finally show ?case by simp
qed

lemma find_prefix_preserved:
  "prefix (map g xs) (map g ys) \<Longrightarrow> find (\<lambda>x. P (g x)) xs = Some u \<Longrightarrow>
   \<exists>u'. find (\<lambda>x. P (g x)) ys = Some u' \<and> g u' = g u"
proof (induction xs arbitrary: ys)
  case Nil
  then show ?case by simp
next
  case (Cons x xs)
  then obtain y ys' where ys: "ys = y # ys'" "g y = g x" "prefix (map g xs) (map g ys')"
    by (cases ys) auto
  show ?case
  proof (cases "P (g x)")
    case True
    with Cons.prems ys show ?thesis by auto
  next
    case False
    with Cons.prems have "find (\<lambda>x. P (g x)) xs = Some u" by simp
    from Cons.IH [OF ys(3) this] False ys show ?thesis by auto
  qed
qed

text \<open>
  C6. No request of the exposed surface changes the role of a registered user: after any
  sequence of requests the table of users still begins with the same users, in the same
  order, with the same ids and roles (registration only appends), and a user found by id
  before is found by the same id afterwards with the same role.
\<close>

theorem role_immutable_after_registration:
  "prefix (identity_and_role d) (identity_and_role (run_requests core rqs d)) \<and>
   (\<forall>uid u. user_by_id (Some uid) d = Some u \<longrightarrow>
      (\<exists>u'. user_by_id (Some uid) (run_requests core rqs d) = Some u' \<and>
            u_id u' = u_id u \<and> u_role u' = u_role u))"
proof (intro conjI allI impI)
  show p: "prefix (identity_and_role d) (identity_and_role (run_requests core rqs d))"
    by (rule identity_and_role_run)
  fix uid u
  assume "user_by_id (Some uid) d = Some u"
  then have "find (\<lambda>x. (\<lambda>(i, r). Some i = Some uid) (u_id x, u_role x)) (users d) = Some u"
    by (simp add: user_by_id_def)
  from find_prefix_preserved [where g = "\<lambda>u. (u_id u, u_role u)", OF p [unfolded identity_and_role_def] this]
  show "\<exists>u'. user_by_id (Some uid) (run_requests core rqs d) = Some u' \<and>
            u_id u' = u_id u \<and> u_role u' = u_role u"
    by (auto simp: user_by_id_def)
qed

theorem role_immutable_after_registration_witness:
  "identity_and_role example_db = [(1, CONSUMER), (2, VENDOR), (3, ADMIN)] \<and>
   identity_and_role (run_requests example_core example_requests example_db) =
     [(1, CONSUMER), (2, VENDOR), (3, ADMIN), (4, VENDOR)] \<and>
   user_by_id (Some 1) example_db = Some alice \<and>
   (\<exists>u'. user_by_id (Some 1) (run_requests example_core example_requests example_db) = Some u' \<and>
         u_id u' = u_id alice \<and> u_role u' = u_role alice)"
proof -
  note fixtures = example_core_def example_db_def alice_def bob_def root_def
    example_user_def claims_of_def user_by_id_def
  have before: "identity_and_role example_db = [(1, CONSUMER), (2, VENDOR), (3, ADMIN)]"
    by (simp add: identity_and_role_def fixtures)
  have found: "user_by_id (Some 1) example_db = Some alice"
    by (simp add: fixtures)
  have after: "identity_and_role (run_requests example_core example_requests example_db) =
     [(1, CONSUMER), (2, VENDOR), (3, ADMIN), (4, VENDOR)]"
    by (simp add: run_requests_def example_requests_def register_user_def user_by_email_def
          change_password_def toggle_user_active_status_def update_user_def
          depends_active_user_def depends_gate_def get_current_user_def
          get_current_active_user_def require_admin_def require_role_def
          identity_and_role_def Let_def fixtures)
  show ?thesis
    using role_immutable_after_registration [of example_db example_core example_requests]
      before after found
    by simp
qed

section \<open>Deleting a category\<close>

lemma category_by_id_Some: "category_by_id cid d = Some c \<Longrightarrow> c_id c = cid"
  by (auto simp: category_by_id_def find_Some_iff)

lemma find_filter_none: "find (\<lambda>c. f c = k) (filter (\<lambda>c. f c \<noteq> k) xs) = None"
  by (simp add: find_None_iff)

text \<open>
  C8. Deleting an existing category that at least one product references raises 400
  \<open>Cannot delete category with existing products\<close>; nothing is committed, and the
  category is still returned by a fetch. Deleting an existing category without products
  succeeds, and a fetch of its id in the resulting database raises 404.
\<close>

theorem delete_category_conflict_or_gone:
  "(\<forall>c. category_by_id cid d = Some c \<and> product_count_of cid d > 0 \<longrightarrow>
      delete_category cid current_user d =
        Inl (http_exception 400 ''Cannot delete category with existing products'') \<and>
      get_category cid d =
        Inr \<lparr>cr_category = c, cr_product_count = product_count_of cid d\<rparr>) \<and>
   (\<forall>c. category_by_id cid d = Some c \<and> product_count_of cid d = 0 \<longrightarrow>
      (\<exists>d'. delete_category cid current_user d = Inr (d', ''Category deleted successfully'') \<and>
            get_category cid d' = Inl (http_exception 404 ''Category not found'')))"
proof (intro conjI allI impI)
  fix c
  assume a: "category_by_id cid d = Some c \<and> product_count_of cid d > 0"
  then show "delete_category cid current_user d =
        Inl (http_exception 400 ''Cannot delete category with existing products'')"
    by (simp add: delete_category_def)
  from a show "get_category cid d =
        Inr \<lparr>cr_category = c, cr_product_count = product_count_of cid d\<rparr>"
    by (simp add: get_category_def)
next
  fix c
  assume a: "category_by_id cid d = Some c \<and> product_count_of cid d = 0"
  then have id: "c_id c = cid" by (auto dest: category_by_id_Some)
  let ?d' = "d\<lparr>categories := filter (\<lambda>x. c_id x \<noteq> c_id c) (categories d)\<rparr>"
  have 1: "delete_category cid current_user d = Inr (?d', ''Category deleted successfully'')"
    using a by (simp add: delete_category_def)
  have "category_by_id cid ?d' = None"
    by (simp add: category_by_id_def id find_filter_none)
  then have 2: "get_category cid ?d' = Inl (http_exception 404 ''Category not found'')"
    by (simp add: get_category_def)
  from 1 2 show "\<exists>d'. delete_category cid current_user d = Inr (d', ''Category deleted successfully'') \<and>
            get_category cid d' = Inl (http_exception 404 ''Category not found'')"
    by blast
qed

theorem delete_category_conflict_or_gone_witness:
  "delete_category 1 root example_db =
     Inl (http_exception 400 ''Cannot delete category with existing products'') \<and>
   get_category 1 example_db =
     Inr \<lparr>cr_category = example_category 1 ''Vegetables'', cr_product_count = 1\<rparr> \<and>
   (\<exists>d'. delete_category 2 root example_db = Inr (d', ''Category deleted successfully'') \<and>
         get_category 2 d' = Inl (http_exception 404 ''Category not found''))"
proof -
  note fixtures = example_db_def example_category_def category_by_id_def product_count_of_def
  have used: "category_by_id 1 example_db = Some (example_category 1 ''Vegetables'')"
      "product_count_of 1 example_db = 1"
    by (simp_all add: fixtures)
  have unused: "category_by_id 2 example_db = Some (example_category 2 ''Fruit'')"
      "product_count_of 2 example_db = 0"
    by (simp_all add: fixtures)
  from delete_category_conflict_or_gone [of 1 example_db root] used
  have c: "delete_category 1 root example_db =
        Inl (http_exception 400 ''Cannot delete category with existing products'')"
      "get_category 1 example_db =
        Inr \<lparr>cr_category = example_category 1 ''Vegetables'', cr_product_count = 1\<rparr>"
    by simp_all
  from delete_category_conflict_or_gone [of 2 example_db root] unused
  have g: "\<exists>d'. delete_category 2 root example_db = Inr (d', ''Category deleted successfully'') \<and>
         get_category 2 d' = Inl (http_exception 404 ''Category not found'')"
    by simp
  from c g show ?thesis by blast
qed

section \<open>Paths\<close>

lemma split_acc_no_sep:
  "part \<in> set (split_acc sep acc s) \<Longrightarrow> sep \<notin> set acc \<Longrightarrow> sep \<notin> set part"
  by (induction sep acc s rule: split_acc.induct) (auto split: if_splits)

lemma split_acc_plain: "sep \<notin> set s \<Longrightarrow> split_acc sep acc s = [rev acc @ s]"
  by (induction s arbitrary: acc) auto

lemma path_parts_no_slash: "part \<in> set (path_parts s) \<Longrightarrow> CHR ''/'' \<notin> set part"
  using split_acc_no_sep [of part "CHR ''/''" "[]" s] by (simp add: path_parts_def)

lemma thumb_name_neq: "''thumb_'' @ n \<noteq> n"
proof
  assume "''thumb_'' @ n = n"
  then have "''thumb_'' = ([] :: string)" by (simp only: append_self_conv2)
  then show False by simp
qed

lemma path_parts_thumb:
  assumes "CHR ''/'' \<notin> set n"
  shows "path_parts (''thumb_'' @ n) = [''thumb_'' @ n]"
proof -
  have "CHR ''/'' \<notin> set (''thumb_'' @ n)" using assms by simp
  then have "split_acc (CHR ''/'') [] (''thumb_'' @ n) = [''thumb_'' @ n]"
    using split_acc_plain [of "CHR ''/''" "''thumb_'' @ n" "[]"] by simp
  then show ?thesis by (simp add: path_parts_def)
qed

lemma path_div_thumb: "path_div p (''thumb_'' @ n) = p @ path_parts (''thumb_'' @ n)"
proof -
  have "\<not> prefix ''/'' (''thumb_'' @ n)" by simp
  then show ?thesis by (simp only: path_div_def if_False)
qed

lemma path_div_thumb_neq:
  "path_div q (''thumb_'' @ n) \<noteq> q @ [n]"
proof
  assume eq: "path_div q (''thumb_'' @ n) = q @ [n]"
  then have parts: "path_parts (''thumb_'' @ n) = [n]"
    by (simp only: path_div_thumb same_append_eq)
  then have "n \<in> set (path_parts (''thumb_'' @ n))" by simp
  then have "CHR ''/'' \<notin> set n" by (rule path_parts_no_slash)
  then have "path_parts (''thumb_'' @ n) = [''thumb_'' @ n]" by (rule path_parts_thumb)
  with parts have "''thumb_'' @ n = n" by simp
  then show False using thumb_name_neq by blast
qed

lemma path_parts_thumb_nonempty: "path_parts (''thumb_'' @ n) \<noteq> []"
proof
  assume e: "path_parts (''thumb_'' @ n) = []"
  show False
  proof (cases "CHR ''/'' \<in> set n")
    case False
    then show False using path_parts_thumb [of n] e by simp
  next
    case True
    then obtain a b where n: "n = a @ CHR ''/'' # b" "CHR ''/'' \<notin> set a"
      by (meson split_list_first)
    have g: "\<And>acc. CHR ''/'' \<notin> set a \<Longrightarrow>
        split_acc (CHR ''/'') acc (a @ CHR ''/'' # b) = (rev acc @ a) # split_acc (CHR ''/'') [] b"
      by (induction a) auto
    have "CHR ''/'' \<notin> set (''thumb_'' @ a)" using n(2) by simp
    have h: "split_acc (CHR ''/'') [] ((''thumb_'' @ a) @ CHR ''/'' # b) =
        (''thumb_'' @ a) # split_acc (CHR ''/'') [] b"
    proof -
      have "\<And>acc x. CHR ''/'' \<notin> set x \<Longrightarrow>
        split_acc (CHR ''/'') acc (x @ CHR ''/'' # b) = (rev acc @ x) # split_acc (CHR ''/'') [] b"
      proof -
        fix acc x show "CHR ''/'' \<notin> set x \<Longrightarrow>
          split_acc (CHR ''/'') acc (x @ CHR ''/'' # b) = (rev acc @ x) # split_acc (CHR ''/'') [] b"
          by (induction x arbitrary: acc) auto
      qed
      from this [of "''thumb_'' @ a" "[]"] \<open>CHR ''/'' \<notin> set (''thumb_'' @ a)\<close>
      show ?thesis by simp
    qed
    have "''thumb_'' @ a \<in> set (path_parts (''thumb_'' @ n))"
      unfolding path_parts_def n(1) using h by simp
    with e show False by simp
  qed
qed

lemma thumbnail_path_neq: "thumbnail_path p \<noteq> p"
proof (cases p rule: path_name.cases)
  case 1
  have "thumbnail_path [] = [] @ path_parts (''thumb_'' @ [])"
    by (simp only: thumbnail_path_def path_parent.simps path_name.simps path_div_thumb)
  with 1 show ?thesis
    using path_parts_thumb_nonempty [of "[]"] by (simp only: append_Nil) metis
next
  case (2 part)
  show ?thesis
  proof (cases "is_root part")
    case True
    then have "thumbnail_path [part] = [part] @ path_parts (''thumb_'' @ [])"
      by (simp only: thumbnail_path_def path_parent.simps path_name.simps path_div_thumb if_True)
    with 2 show ?thesis
      using path_parts_thumb_nonempty [of "[]"] by (metis append_self_conv)
  next
    case False
    then have "thumbnail_path [part] = path_div [] (''thumb_'' @ part)"
      by (simp only: thumbnail_path_def path_parent.simps path_name.simps if_False)
    with 2 show ?thesis
      using path_div_thumb_neq [of "[]" part] by (simp only: append_Nil) metis
  qed
next
  case (3 a b cs)
  then have "thumbnail_path p = path_div (butlast p) (''thumb_'' @ last p)"
    by (simp only: thumbnail_path_def path_parent.simps path_name.simps)
  moreover have "p = butlast p @ [last p]" using 3 by simp
  ultimately show ?thesis
    using path_div_thumb_neq [of "butlast p" "last p"] by metis
qed

lemma UPLOAD_DIR_parts: "UPLOAD_DIR = [''uploads'']"
  by (simp add: UPLOAD_DIR_def path_div_def path_parts_def)

lemma products_path: "path_div UPLOAD_DIR ''products'' = [''uploads'', ''products'']"
  by (simp add: UPLOAD_DIR_parts path_div_def path_parts_def)

lemma stored_path_eq:
  "path_div (path_div UPLOAD_DIR ''products'') stored_name = stored_path"
  by (simp add: UPLOAD_DIR_parts stored_name_def stored_path_def path_div_def path_parts_def)

lemma stored_thumb_path_eq:
  "path_div (path_div UPLOAD_DIR ''products'') (''thumb_'' @ stored_name) = stored_thumb_path"
  by (simp add: UPLOAD_DIR_parts stored_name_def stored_thumb_path_def path_div_def path_parts_def)

lemma stored_thumbnail_path: "thumbnail_path stored_path = stored_thumb_path"
  by (simp add: thumbnail_path_def stored_path_def stored_thumb_path_def path_div_def
        path_parts_def)

lemma stored_paths_differ: "stored_thumb_path \<noteq> stored_path"
  by (simp add: stored_path_def stored_thumb_path_def)

section \<open>Removing an image\<close>

text \<open>
  Both files of a stored image exist and the removal of the original raises: the
  exception is caught, \<^verbatim>\<open>delete_image\<close> answers \<open>False\<close> and both files are still there.
\<close>

theorem delete_image_unlink_counterexample:
  "stored_files stored_path = Some (File [137, 80, 78, 71]) \<and>
   stored_files stored_thumb_path = Some (File [9]) \<and>
   delete_image locked_env stored_name ''products'' stored_files = (False, stored_files)"
  by (simp add: delete_image_def stored_path_eq stored_thumb_path_eq stored_files_def
        stored_paths_differ stored_paths_differ [symmetric] unlink_def locked_env_def)

text \<open>
  C9, as amended. \<^verbatim>\<open>delete_image\<close> removes the original and its thumbnail when they
  exist and their removal does not raise, and answers \<open>True\<close>; a file that is already
  absent is skipped and the answer is \<open>True\<close> all the same. A removal that raises (it
  always does on a directory) is caught: the answer is \<open>False\<close> and what was not yet
  removed stays. After a call that answered \<open>True\<close> both files are absent, and a second
  call answers \<open>True\<close> again and changes nothing.
\<close>

theorem delete_image_outcomes:
  "(\<forall>file_path thumb_path.
      file_path = path_div (path_div UPLOAD_DIR subdir) name \<and>
      thumb_path = path_div (path_div UPLOAD_DIR subdir) (''thumb_'' @ name) \<longrightarrow>
      (\<not> unlink_raises env file_path \<and> fs file_path \<noteq> Some Directory \<and>
       \<not> unlink_raises env thumb_path \<and> fs thumb_path \<noteq> Some Directory \<longrightarrow>
         delete_image env name subdir fs =
           (True, fs(file_path := None, thumb_path := None))) \<and>
      (fs file_path = None \<and> fs thumb_path = None \<longrightarrow>
         delete_image env name subdir fs = (True, fs)) \<and>
      (\<forall>fs'. delete_image env name subdir fs = (True, fs') \<longrightarrow>
         fs' file_path = None \<and> fs' thumb_path = None \<and>
         delete_image env name subdir fs' = (True, fs')) \<and>
      (fs file_path \<noteq> None \<and>
       (unlink_raises env file_path \<or> fs file_path = Some Directory) \<longrightarrow>
         delete_image env name subdir fs = (False, fs)) \<and>
      (\<not> (fs file_path \<noteq> None \<and>
          (unlink_raises env file_path \<or> fs file_path = Some Directory)) \<and>
       (fs(file_path := None)) thumb_path \<noteq> None \<and>
       (unlink_raises env thumb_path \<or> fs thumb_path = Some Directory) \<longrightarrow>
         delete_image env name subdir fs = (False, fs(file_path := None))))"
  by (auto simp: delete_image_def Let_def unlink_def fun_upd_idem
           split: if_splits option.splits)

theorem delete_image_outcomes_witness:
  "delete_image example_env stored_name ''products'' stored_files =
     (True, stored_files(stored_path := None, stored_thumb_path := None)) \<and>
   delete_image example_env stored_name ''products''
       (stored_files(stored_path := None, stored_thumb_path := None)) =
     (True, stored_files(stored_path := None, stored_thumb_path := None)) \<and>
   delete_image example_env stored_name ''products'' upload_dirs = (True, upload_dirs) \<and>
   delete_image locked_env stored_name ''products'' stored_files = (False, stored_files) \<and>
   delete_image example_env [] ''products'' upload_dirs = (False, upload_dirs)"
proof -
  note paths = stored_path_eq stored_thumb_path_eq
  have present: "stored_files stored_path = Some (File [137, 80, 78, 71])"
      "stored_files stored_thumb_path = Some (File [9])"
    by (simp_all add: stored_files_def stored_paths_differ [symmetric])
  have absent: "upload_dirs stored_path = None" "upload_dirs stored_thumb_path = None"
    by (simp_all add: upload_dirs_def no_files_def stored_path_def stored_thumb_path_def)
  have quiet: "\<not> unlink_raises example_env stored_path"
      "\<not> unlink_raises example_env stored_thumb_path"
    by (simp_all add: example_env_def)
  have locked: "unlink_raises locked_env stored_path"
    by (simp add: locked_env_def)
  have dir: "path_div (path_div UPLOAD_DIR ''products'') [] = [''uploads'', ''products'']"
      "upload_dirs [''uploads'', ''products''] = Some Directory"
    by (simp_all add: UPLOAD_DIR_parts path_div_def path_parts_def upload_dirs_def)
  note at_stored = conjI [OF stored_path_eq [symmetric] stored_thumb_path_eq [symmetric]]
  note quiet_stored = delete_image_outcomes
    [where env = example_env and name = stored_name and subdir = "''products''"
       and fs = stored_files, rule_format, OF at_stored]
  note quiet_empty = delete_image_outcomes
    [where env = example_env and name = stored_name and subdir = "''products''"
       and fs = upload_dirs, rule_format, OF at_stored]
  note locked_stored = delete_image_outcomes
    [where env = locked_env and name = stored_name and subdir = "''products''"
       and fs = stored_files, rule_format, OF at_stored]
  note no_name = delete_image_outcomes
    [where env = example_env and name = "[]" and subdir = "''products''"
       and fs = upload_dirs, rule_format, OF conjI [OF dir(1) [symmetric] refl]]
  have first: "delete_image example_env stored_name ''products'' stored_files =
     (True, stored_files(stored_path := None, stored_thumb_path := None))"
    using quiet_stored present quiet by simp
  have second: "delete_image example_env stored_name ''products''
       (stored_files(stored_path := None, stored_thumb_path := None)) =
     (True, stored_files(stored_path := None, stored_thumb_path := None))"
    using quiet_stored first by blast
  have third: "delete_image example_env stored_name ''products'' upload_dirs =
     (True, upload_dirs)"
    using quiet_empty absent by blast
  have fourth: "delete_image locked_env stored_name ''products'' stored_files =
     (False, stored_files)"
    using locked_stored present locked by simp
  have fifth: "delete_image example_env [] ''products'' upload_dirs = (False, upload_dirs)"
    using no_name dir(2) by simp
  from first second third fourth fifth show ?thesis by blast
qed

section \<open>Saving an image\<close>

lemma generate_filename_unique:
  "length (uuid4 env) = length (uuid4 env') \<Longrightarrow> uuid4 env' \<noteq> uuid4 env \<Longrightarrow>
   generate_filename env' n' \<noteq> generate_filename env n"
  by (simp add: generate_filename_def)

text \<open>
  Two accepted uploads. The bytes of the first cannot be decoded by the imaging library:
  \<^verbatim>\<open>create_thumbnail\<close> swallows the failure, so the save succeeds, the original stays
  and no thumbnail exists. The write of the second fails and the removal of the partial
  file raises: the partial original stays, and the answer is the framework's 500.
\<close>

theorem save_image_counterexample:
  "fst (save_image example_env undecodable_upload ''products'' upload_dirs) =
     Inr ''0f8fad5b-d9cb-469f-a165-70867728950e.png'' \<and>
   snd (save_image example_env undecodable_upload ''products'' upload_dirs) stored_path =
     Some (File [0, 2, 4]) \<and>
   snd (save_image example_env undecodable_upload ''products'' upload_dirs) stored_thumb_path =
     None \<and>
   fst (save_image read_only_env png_upload ''products'' upload_dirs) =
     Inl (http_exception 500 ''Internal Server Error'') \<and>
   snd (save_image read_only_env png_upload ''products'' upload_dirs) stored_path =
     Some (File [137])"
proof -
  have name: "generate_filename example_env ''photo.PNG'' = stored_name"
      "generate_filename read_only_env ''photo.PNG'' = stored_name"
    by (simp_all add: generate_filename_def example_env_def read_only_env_def
          example_suffix_def stored_name_def)
  have valid: "validate_image_file example_env undecodable_upload"
      "validate_image_file read_only_env png_upload"
    by (simp_all add: validate_image_file_def undecodable_upload_def png_upload_def
          example_env_def read_only_env_def example_suffix_def ALLOWED_EXTENSIONS_def)
  have small: "\<not> length (content undecodable_upload) > MAX_FILE_SIZE"
      "\<not> length (content png_upload) > MAX_FILE_SIZE"
    by (simp_all add: undecodable_upload_def png_upload_def MAX_FILE_SIZE_def)
  have io: "write_result example_env = Written"
      "make_thumbnail example_env [0, 2, 4] = None"
      "write_result read_only_env = WriteFailed [137] ''disk full''"
      "unlink_raises read_only_env stored_path"
    by (simp_all add: example_env_def read_only_env_def)
  have given: "filename undecodable_upload = Some ''photo.PNG''"
      "content undecodable_upload = [0, 2, 4]"
      "filename png_upload = Some ''photo.PNG''"
    by (simp_all add: undecodable_upload_def png_upload_def)
  have a: "save_image example_env undecodable_upload ''products'' upload_dirs =
      (Inr stored_name, upload_dirs(stored_path \<mapsto> File [0, 2, 4]))"
    using valid small
    by (simp add: save_image_def Let_def given name stored_path_eq create_thumbnail_def io)
  have b: "save_image read_only_env png_upload ''products'' upload_dirs =
      (Inl (http_exception 500 ''Internal Server Error''),
       upload_dirs(stored_path \<mapsto> File [137]))"
    using valid small
    by (simp add: save_image_def Let_def given name stored_path_eq save_cleanup_def
          unlink_def io)
  have none: "upload_dirs stored_thumb_path = None"
    by (simp add: upload_dirs_def no_files_def stored_thumb_path_def)
  show ?thesis
    by (simp add: a b none stored_paths_differ stored_name_def)
qed

text \<open>
  C7, as amended. \<^verbatim>\<open>save_image\<close> rejects with 400 \<open>Invalid image file\<close> a file whose
  content type does not start with \<open>image/\<close> or whose lower-cased extension is not one of
  the five allowed ones, and with 400 \<open>File too large\<close> content of more than 5 MiB. An
  accepted file is written under the freshly generated name, which is returned; the name
  is the identifier followed by the extension, so that different identifiers give
  different names. The thumbnail is written beside the original when the imaging step
  succeeds; when that step fails the save succeeds all the same, with the original
  alone. When opening or writing the original fails, the partial file is removed and 500
  \<open>Failed to save image\<close> is raised, provided the removal does not raise itself.
\<close>

theorem save_image_outcomes:
  "(validate_image_file env file \<longleftrightarrow>
      (\<exists>ct. content_type file = Some ct \<and> prefix ''image/'' ct) \<and>
      suffix_lower env (case filename file of None \<Rightarrow> [] | Some n \<Rightarrow> n)
        \<in> {''.jpg'', ''.jpeg'', ''.png'', ''.gif'', ''.webp''}) \<and>
   MAX_FILE_SIZE = 5242880 \<and>
   (\<not> validate_image_file env file \<longrightarrow>
      save_image env file subdir fs = (Inl (http_exception 400 ''Invalid image file''), fs)) \<and>
   (validate_image_file env file \<and> length (content file) > MAX_FILE_SIZE \<longrightarrow>
      save_image env file subdir fs = (Inl (http_exception 400 ''File too large''), fs)) \<and>
   (\<forall>name file_path.
      validate_image_file env file \<and> length (content file) \<le> MAX_FILE_SIZE \<and>
      name = uuid4 env @ suffix_lower env
               (case filename file of None \<Rightarrow> ''image''
                | Some n \<Rightarrow> if n = [] then ''image'' else n) \<and>
      file_path = path_div (path_div UPLOAD_DIR subdir) name \<longrightarrow>
      (write_result env = Written \<longrightarrow>
         fst (save_image env file subdir fs) = Inr name \<and>
         snd (save_image env file subdir fs) file_path = Some (File (content file)) \<and>
         (\<forall>thumb. make_thumbnail env (content file) = Some thumb \<longrightarrow>
            snd (save_image env file subdir fs) =
              fs(file_path \<mapsto> File (content file),
                 thumbnail_path file_path \<mapsto> File thumb)) \<and>
         (make_thumbnail env (content file) = None \<longrightarrow>
            snd (save_image env file subdir fs) = fs(file_path \<mapsto> File (content file)))) \<and>
      (\<forall>e. write_result env = OpenFailed e \<and>
           \<not> unlink_raises env file_path \<and> fs file_path \<noteq> Some Directory \<longrightarrow>
         save_image env file subdir fs =
           (Inl (http_exception 500 (''Failed to save image: '' @ e)), fs(file_path := None))) \<and>
      (\<forall>partial e. write_result env = WriteFailed partial e \<and>
           \<not> unlink_raises env file_path \<longrightarrow>
         save_image env file subdir fs =
           (Inl (http_exception 500 (''Failed to save image: '' @ e)), fs(file_path := None)))) \<and>
   (\<forall>env' original original'.
      length (uuid4 env) = 36 \<and> length (uuid4 env') = 36 \<and> uuid4 env' \<noteq> uuid4 env \<longrightarrow>
      generate_filename env' original' \<noteq> generate_filename env original)"
proof (intro conjI allI impI)
  show "validate_image_file env file \<longleftrightarrow>
      (\<exists>ct. content_type file = Some ct \<and> prefix ''image/'' ct) \<and>
      suffix_lower env (case filename file of None \<Rightarrow> [] | Some n \<Rightarrow> n)
        \<in> {''.jpg'', ''.jpeg'', ''.png'', ''.gif'', ''.webp''}"
    by (auto simp: validate_image_file_def ALLOWED_EXTENSIONS_def Let_def split: option.splits)
  show "MAX_FILE_SIZE = 5242880" by (simp add: MAX_FILE_SIZE_def)
  show "save_image env file subdir fs = (Inl (http_exception 400 ''Invalid image file''), fs)"
    if "\<not> validate_image_file env file"
    using that by (simp add: save_image_def)
  show "save_image env file subdir fs = (Inl (http_exception 400 ''File too large''), fs)"
    if "validate_image_file env file \<and> length (content file) > MAX_FILE_SIZE"
    using that by (simp add: save_image_def)
  show "generate_filename env' original' \<noteq> generate_filename env original"
    if "length (uuid4 env) = 36 \<and> length (uuid4 env') = 36 \<and> uuid4 env' \<noteq> uuid4 env"
    for env' original original'
    using that by (simp add: generate_filename_unique)
next
  fix name file_path
  assume a: "validate_image_file env file \<and> length (content file) \<le> MAX_FILE_SIZE \<and>
      name = uuid4 env @ suffix_lower env
               (case filename file of None \<Rightarrow> ''image''
                | Some n \<Rightarrow> if n = [] then ''image'' else n) \<and>
      file_path = path_div (path_div UPLOAD_DIR subdir) name"
  then have v: "validate_image_file env file" "length (content file) \<le> MAX_FILE_SIZE"
    and nm: "name = generate_filename env
               (case filename file of None \<Rightarrow> ''image''
                | Some n \<Rightarrow> if n = [] then ''image'' else n)"
    and fp: "file_path = path_div (path_div UPLOAD_DIR subdir) name"
    by (simp_all add: generate_filename_def)
  have s: "save_image env file subdir fs =
     (case write_result env of
        Written \<Rightarrow>
          (Inr name, create_thumbnail env file_path (fs(file_path \<mapsto> File (content file))))
      | OpenFailed e \<Rightarrow> save_cleanup env file_path e fs
      | WriteFailed partial e \<Rightarrow> save_cleanup env file_path e (fs(file_path \<mapsto> File partial)))"
    using v unfolding fp nm
    by (cases "write_result env") (simp_all add: save_image_def Let_def)
  have ne: "thumbnail_path file_path \<noteq> file_path"
    by (rule thumbnail_path_neq)
  {
    assume w: "write_result env = Written"
    show "fst (save_image env file subdir fs) = Inr name"
      by (simp add: s w)
    show "snd (save_image env file subdir fs) file_path = Some (File (content file))"
      using ne by (simp add: s w create_thumbnail_def split: option.splits)
    show "snd (save_image env file subdir fs) =
              fs(file_path \<mapsto> File (content file),
                 thumbnail_path file_path \<mapsto> File thumb)"
      if "make_thumbnail env (content file) = Some thumb" for thumb
      using that by (simp add: s w create_thumbnail_def)
    show "snd (save_image env file subdir fs) = fs(file_path \<mapsto> File (content file))"
      if "make_thumbnail env (content file) = None"
      using that by (simp add: s w create_thumbnail_def)
  }
  show "save_image env file subdir fs =
           (Inl (http_exception 500 (''Failed to save image: '' @ e)), fs(file_path := None))"
    if "write_result env = OpenFailed e \<and>
           \<not> unlink_raises env file_path \<and> fs file_path \<noteq> Some Directory" for e
    using that by (simp add: s save_cleanup_def unlink_def fun_upd_idem)
  show "save_image env file subdir fs =
           (Inl (http_exception 500 (''Failed to save image: '' @ e)), fs(file_path := None))"
    if "write_result env = WriteFailed partial e \<and> \<not> unlink_raises env file_path"
    for partial e
    using that by (simp add: s save_cleanup_def unlink_def)
qed

theorem save_image_outcomes_witness:
  "save_image example_env text_upload ''products'' upload_dirs =
     (Inl (http_exception 400 ''Invalid image file''), upload_dirs) \<and>
   save_image example_env oversized_upload ''products'' upload_dirs =
     (Inl (http_exception 400 ''File too large''), upload_dirs) \<and>
   fst (save_image example_env png_upload ''products'' upload_dirs) = Inr stored_name \<and>
   snd (save_image example_env png_upload ''products'' upload_dirs) =
     upload_dirs(stored_path \<mapsto> File [137, 80, 78, 71], stored_thumb_path \<mapsto> File [9]) \<and>
   save_image disk_full_env png_upload ''products'' upload_dirs =
     (Inl (http_exception 500 ''Failed to save image: disk full''),
      upload_dirs(stored_path := None)) \<and>
   generate_filename other_env ''photo.PNG'' \<noteq> generate_filename example_env ''photo.PNG''"
proof -
  note envs = example_env_def disk_full_env_def example_suffix_def
  have invalid: "\<not> validate_image_file example_env text_upload"
    by (simp add: validate_image_file_def text_upload_def envs ALLOWED_EXTENSIONS_def)
  have big: "validate_image_file example_env oversized_upload \<and>
        length (content oversized_upload) > MAX_FILE_SIZE"
    by (simp add: validate_image_file_def oversized_upload_def envs ALLOWED_EXTENSIONS_def)
  have png: "validate_image_file example_env png_upload \<and>
        length (content png_upload) \<le> MAX_FILE_SIZE \<and>
        stored_name = uuid4 example_env @ suffix_lower example_env
               (case filename png_upload of None \<Rightarrow> ''image''
                | Some n \<Rightarrow> if n = [] then ''image'' else n) \<and>
        stored_path = path_div (path_div UPLOAD_DIR ''products'') stored_name"
    by (simp add: validate_image_file_def png_upload_def envs ALLOWED_EXTENSIONS_def
          MAX_FILE_SIZE_def stored_name_def stored_path_eq [unfolded stored_name_def])
  have png': "validate_image_file disk_full_env png_upload \<and>
        length (content png_upload) \<le> MAX_FILE_SIZE \<and>
        stored_name = uuid4 disk_full_env @ suffix_lower disk_full_env
               (case filename png_upload of None \<Rightarrow> ''image''
                | Some n \<Rightarrow> if n = [] then ''image'' else n) \<and>
        stored_path = path_div (path_div UPLOAD_DIR ''products'') stored_name"
    by (simp add: validate_image_file_def png_upload_def envs ALLOWED_EXTENSIONS_def
          MAX_FILE_SIZE_def stored_name_def stored_path_eq [unfolded stored_name_def])
  have io: "write_result example_env = Written"
      "make_thumbnail example_env (content png_upload) = Some [9]"
      "write_result disk_full_env = WriteFailed [137] ''disk full''"
      "\<not> unlink_raises disk_full_env stored_path"
    by (simp_all add: envs png_upload_def)
  have ids: "length (uuid4 example_env) = 36 \<and> length (uuid4 other_env) = 36 \<and>
        uuid4 other_env \<noteq> uuid4 example_env"
    by (simp add: other_env_def example_env_def)
  have content: "content png_upload = [137, 80, 78, 71]"
    by (simp add: png_upload_def)
  note rejected = save_image_outcomes
    [of example_env text_upload "''products''" upload_dirs,
     THEN conjunct2, THEN conjunct2, THEN conjunct1, rule_format]
  note too_large = save_image_outcomes
    [of example_env oversized_upload "''products''" upload_dirs,
     THEN conjunct2, THEN conjunct2, THEN conjunct2, THEN conjunct1, rule_format]
  note accepted = save_image_outcomes
    [of example_env png_upload "''products''" upload_dirs,
     THEN conjunct2, THEN conjunct2, THEN conjunct2, THEN conjunct2, THEN conjunct1,
     rule_format, OF png]
  note unique = save_image_outcomes
    [of example_env png_upload "''products''" upload_dirs,
     THEN conjunct2, THEN conjunct2, THEN conjunct2, THEN conjunct2, THEN conjunct2,
     rule_format, OF ids]
  note failed = save_image_outcomes
    [of disk_full_env png_upload "''products''" upload_dirs,
     THEN conjunct2, THEN conjunct2, THEN conjunct2, THEN conjunct2, THEN conjunct1,
     rule_format, OF png']
  note written = accepted [THEN conjunct1, rule_format, OF io(1)]
  have r1: "save_image example_env text_upload ''products'' upload_dirs =
     (Inl (http_exception 400 ''Invalid image file''), upload_dirs)"
    using invalid by (rule rejected)
  have r2: "save_image example_env oversized_upload ''products'' upload_dirs =
     (Inl (http_exception 400 ''File too large''), upload_dirs)"
    using big by (rule too_large)
  have r3: "fst (save_image example_env png_upload ''products'' upload_dirs) = Inr stored_name"
    by (rule written [THEN conjunct1])
  have "snd (save_image example_env png_upload ''products'' upload_dirs) =
      upload_dirs(stored_path \<mapsto> File (content png_upload),
                  thumbnail_path stored_path \<mapsto> File [9])"
    by (rule written [THEN conjunct2, THEN conjunct2, THEN conjunct1, rule_format, OF io(2)])
  then have r4: "snd (save_image example_env png_upload ''products'' upload_dirs) =
     upload_dirs(stored_path \<mapsto> File [137, 80, 78, 71], stored_thumb_path \<mapsto> File [9])"
    by (simp only: content stored_thumbnail_path)
  have "save_image disk_full_env png_upload ''products'' upload_dirs =
     (Inl (http_exception 500 (''Failed to save image: '' @ ''disk full'')),
      upload_dirs(stored_path := None))"
    by (rule failed [THEN conjunct2, THEN conjunct2, rule_format, OF conjI [OF io(3) io(4)]])
  then have r5: "save_image disk_full_env png_upload ''products'' upload_dirs =
     (Inl (http_exception 500 ''Failed to save image: disk full''),
      upload_dirs(stored_path := None))"
    by simp
  have r6: "generate_filename other_env ''photo.PNG'' \<noteq>
      generate_filename example_env ''photo.PNG''"
    by (rule unique)
  from r1 r2 r3 r4 r5 r6 show ?thesis by (intro conjI)
qed

end
